theory Spec2Isabelle
  imports Complex_Main "HOL-Library.Log_Nat"
begin

section \<open>Python values, exceptions and library behaviour\<close>

text \<open>
  The program is \<^verbatim>\<open>src/cancer_detection_app.py\<close>: one class, \<^verbatim>\<open>CancerDetectionApp\<close>,
  whose methods mutate the object's fields and its widgets. The embedding keeps the
  object as a record that every method takes and returns, an exception as a value
  returned beside it, and what the method reads from outside (PIL, Keras, the file
  dialogs, the clock) as a record of functions or as an argument.

  Probabilities, the threshold and the resize ratio are Python or NumPy floats. A float
  is modelled by its exact value, a rational, and a floating-point operation by the exact
  operation followed by rounding to the format, to the nearest value and to the even one
  on a tie. The exponent range, infinities and NaN are not represented.
\<close>

datatype exn_class =
  FileNotFoundError | JSONDecodeError | KeyError | TypeError | ValueError
  | IndexError | ZeroDivisionError | OSError | UnidentifiedImageError | AttributeError

datatype py_exn = Exn exn_class string

fun exn_cls :: "py_exn \<Rightarrow> exn_class" where
  "exn_cls (Exn c m) = c"

text \<open>\<^verbatim>\<open>str(e)\<close>\<close>

fun str_exn :: "py_exn \<Rightarrow> string" where
  "str_exn (Exn c m) = m"

text \<open>\<^verbatim>\<open>xs[i]\<close> for an index that is never negative here.\<close>

definition getitem :: "'a list \<Rightarrow> nat \<Rightarrow> py_exn + 'a" where
  "getitem xs i =
     (if i < length xs then Inr (xs ! i) else Inl (Exn IndexError ''index out of range''))"

subsection \<open>Number formatting\<close>

definition digit_char :: "nat \<Rightarrow> char" where
  "digit_char d = ''0123456789'' ! (d mod 10)"

fun show_nat :: "nat \<Rightarrow> string" where
  "show_nat n = (if n < 10 then [digit_char n] else show_nat (n div 10) @ [digit_char (n mod 10)])"

declare show_nat.simps [simp del]

text \<open>The \<open>d\<close> low decimal digits of \<open>n\<close>, zero padded.\<close>

fun low_digits :: "nat \<Rightarrow> nat \<Rightarrow> string" where
  "low_digits 0 n = []"
| "low_digits (Suc d) n = low_digits d (n div 10) @ [digit_char (n mod 10)]"

definition round_half_even :: "rat \<Rightarrow> int" where
  "round_half_even x =
     (let f = \<lfloor>x\<rfloor>; d = x - of_int f
      in if d < 1 / 2 then f else if 1 / 2 < d then f + 1 else if even f then f else f + 1)"

text \<open>
  Rounding to a binary format of \<open>p\<close> significant bits: for \<open>2 ^ e \<le> |x| < 2 ^ (e + 1)\<close>
  the neighbouring values are \<open>2 ^ (e - p + 1)\<close> apart. \<open>floor_log2\<close> finds \<open>e\<close> from the
  bit lengths of numerator and denominator. \<open>f32_round\<close> is NumPy's float32,
  \<open>f64_round\<close> Python's float.
\<close>

definition floor_log2 :: "rat \<Rightarrow> int" where
  "floor_log2 x =
     (let k = bitlen (fst (quotient_of x)) - bitlen (snd (quotient_of x))
      in if 2 powi k \<le> x then k else k - 1)"

definition fl_round :: "nat \<Rightarrow> rat \<Rightarrow> rat" where
  "fl_round p x =
     (if x = 0 then 0
      else (let q = 2 powi (floor_log2 \<bar>x\<bar> - int p + 1)
            in of_int (round_half_even (x / q)) * q))"

definition f32_round :: "rat \<Rightarrow> rat" where
  "f32_round = fl_round 24"

definition f64_round :: "rat \<Rightarrow> rat" where
  "f64_round = fl_round 53"

text \<open>\<^verbatim>\<open>f"{x:.<d>f}"\<close>: fixed point with \<open>d\<close> decimals, rounded half to even.\<close>

definition format_fixed :: "nat \<Rightarrow> rat \<Rightarrow> string" where
  "format_fixed d x =
     (let n = nat \<bar>round_half_even (x * 10 ^ d)\<bar>
      in (if x < 0 then ''-'' else '''') @ show_nat (n div 10 ^ d)
         @ (if d = 0 then '''' else ''.'' @ low_digits d n))"

text \<open>
  \<^verbatim>\<open>f"{x:.<d>%}"\<close>: the value times 100, a product of Python floats, then fixed point
  and a percent sign.
\<close>

definition format_percent :: "nat \<Rightarrow> rat \<Rightarrow> string" where
  "format_percent d x = format_fixed d (f64_round (x * 100)) @ ''%''"

subsection \<open>Paths\<close>

text \<open>\<^verbatim>\<open>os.path.basename\<close> and \<^verbatim>\<open>os.path.join\<close> of two parts, POSIX flavour.\<close>

definition basename :: "string \<Rightarrow> string" where
  "basename p = rev (takeWhile (\<lambda>c. c \<noteq> CHR ''/'') (rev p))"

definition path_join :: "string \<Rightarrow> string \<Rightarrow> string" where
  "path_join a b =
     (if b \<noteq> [] \<and> hd b = CHR ''/'' then b
      else if a = [] \<or> last a = CHR ''/'' then a @ b
      else a @ ''/'' @ b)"

subsection \<open>Images, arrays and the libraries\<close>

text \<open>
  A PIL image: its mode, its size (width, height) and its pixel data, rows of pixels of
  band values. \<open>img_data\<close> is \<open>Inl\<close> when the file's header was read but its pixel data
  cannot be decoded (PIL opens lazily).
\<close>

record image =
  img_mode :: string
  img_size :: "int \<times> int"
  img_data :: "py_exn + int list list list"

type_synonym tensor3 = "rat list list list"
type_synonym tensor4 = "rat list list list list"

text \<open>A loaded Keras model is known by its \<^verbatim>\<open>predict\<close> only.\<close>

type_synonym keras_model = "tensor4 \<Rightarrow> py_exn + rat list list"

text \<open>
  What the program calls outside itself: \<^verbatim>\<open>Image.open\<close>, \<^verbatim>\<open>Image.convert\<close>,
  \<^verbatim>\<open>Image.resize\<close> (size, resampling filter or the default), \<^verbatim>\<open>ImageTk.PhotoImage\<close>,
  \<^verbatim>\<open>load_model\<close>, opening the export file for writing (\<open>None\<close>: it opens), and the
  base directory that \<^verbatim>\<open>resource_path\<close> finds.

  \<open>np_float\<close> is the float format NumPy works in when a float32 scalar meets a Python
  number, as a comparison with the threshold or a product with 100: the Python number is
  taken and the result produced in float32 from NumPy 2 on (\<open>f32_round\<close>), in double
  before (\<open>f64_round\<close>). The repository names no version.
\<close>

record env =
  image_open :: "string \<Rightarrow> py_exn + image"
  image_convert :: "image \<Rightarrow> string \<Rightarrow> py_exn + image"
  image_resize :: "image \<Rightarrow> int list \<Rightarrow> string option \<Rightarrow> py_exn + image"
  photo_image :: "image \<Rightarrow> py_exn + image"
  load_model :: "string \<Rightarrow> py_exn + keras_model"
  open_write :: "string \<Rightarrow> py_exn option"
  base_path :: string
  np_float :: "rat \<Rightarrow> rat"

definition resource_path :: "env \<Rightarrow> string \<Rightarrow> string" where
  "resource_path e relative_path = path_join (base_path e) relative_path"

section \<open>The application object\<close>

record config =
  model_path :: string
  target_size :: "int list"
  threshold :: rat

text \<open>
  The content of \<^verbatim>\<open>config.json\<close>: a JSON document, known by the configuration it
  parses to, or text that is not JSON.
\<close>

datatype file_content = JsonConfig config | NotJson

datatype widget_state = Disabled | Normal

datatype dialog =
  ShowError string string | ShowWarning string string | ShowInfo string string

datatype log_level = INFO | WARNING | ERROR

text \<open>A log record: level, message, and the scores where the message prints the array.\<close>

datatype log_entry = Log log_level string | LogScores log_level string nat "rat list"

text \<open>A cell of the metrics table: text, or a float printed by \<^verbatim>\<open>str\<close>.\<close>

datatype cell = Txt string | Num rat

record app =
  config :: config
  image_path :: "string option"
  model :: "keras_model option"
  model_loaded :: bool
  prediction_made :: bool
  confidence_scores :: "rat list option"
  predict_button :: widget_state
  status_var :: string
  placeholder_shown :: bool
  image_label :: "image option"
  result_label :: "string \<times> string"
  confidence_label :: string
  confidence_bar :: rat
  image_info_label :: string
  tab_selected :: nat
  chart :: "(string \<times> rat \<times> string \<times> string option) list"
  metrics_tree :: "(string \<times> cell) list"
  history_tree :: "(string \<times> string \<times> string \<times> string) list"
  dialogs :: "dialog list"
  log :: "log_entry list"
  config_file :: "file_content option"
  files :: "string \<rightharpoonup> string"

definition show_dialog :: "dialog \<Rightarrow> app \<Rightarrow> app" where
  "show_dialog d s = s\<lparr>dialogs := dialogs s @ [d]\<rparr>"

definition logging :: "log_entry \<Rightarrow> app \<Rightarrow> app" where
  "logging l s = s\<lparr>log := log s @ [l]\<rparr>"

section \<open>The decision\<close>

text \<open>\<^verbatim>\<open>np.argmax\<close> of one row: the index of the first largest element.\<close>

fun argmax_from :: "rat list \<Rightarrow> nat \<Rightarrow> nat \<Rightarrow> rat \<Rightarrow> nat" where
  "argmax_from [] i best bv = best"
| "argmax_from (x # xs) i best bv =
     (if bv < x then argmax_from xs (Suc i) i x else argmax_from xs (Suc i) best bv)"

definition np_argmax :: "rat list \<Rightarrow> py_exn + nat" where
  "np_argmax xs =
     (case xs of
        [] \<Rightarrow> Inl (Exn ValueError ''attempt to get argmax of an empty sequence'')
      | x # rest \<Rightarrow> Inr (argmax_from rest 1 0 x))"

definition cancer_text :: string where
  "cancer_text =
     [CHR 0xC3, CHR 0xB0, CHR 0xC5, CHR 0xB8, CHR 0xE2, CHR 0x80, CHR 0x9D, CHR 0xC2, CHR 0xB4]
     @ '' CANCER DETECTED''"

definition no_cancer_text :: string where
  "no_cancer_text =
     [CHR 0xC3, CHR 0xB0, CHR 0xC5, CHR 0xB8, CHR 0xC5, CHR 0xB8, CHR 0xC2, CHR 0xA2]
     @ '' NO CANCER DETECTED''"

text \<open>
  A method returns the object as it has left it, and the exception it raised, if any:
  what a method has written before it raises stays written.
\<close>

type_synonym outcome = "app \<times> py_exn option"

text \<open>
  \<^verbatim>\<open>update_results\<close>: \<^verbatim>\<open>confidence >= threshold\<close> compares a float32 scalar with a Python
  float, and \<^verbatim>\<open>confidence * 100\<close> multiplies one by a Python integer.
\<close>

definition update_results :: "env \<Rightarrow> app \<Rightarrow> nat \<Rightarrow> rat list \<Rightarrow> outcome" where
  "update_results e s class_index scores =
     (let thr = threshold (config s)
      in case getitem scores class_index of
           Inl x \<Rightarrow> (s, Some x)
         | Inr confidence \<Rightarrow>
             (let s1 = (if class_index = 1 \<and> np_float e thr \<le> confidence
                        then s\<lparr>result_label := (cancer_text, ''red'')\<rparr>
                        else s\<lparr>result_label := (no_cancer_text, ''green'')\<rparr>)
              in (s1\<lparr>confidence_label := ''Confidence: '' @ format_percent 2 confidence,
                      confidence_bar := np_float e (confidence * 100)\<rparr>, None)))"

text \<open>
  \<^verbatim>\<open>update_metrics\<close>: the bar chart, then the rows of the metrics table by position. The
  chart has one bar per class. \<^verbatim>\<open>barh\<close> takes one score per class, or a single score that
  it gives to both bars, and refuses any other number after the old chart is cleared; the
  percentage beside a bar is written for as many bars as there are scores.
\<close>

definition metric_row :: "nat \<Rightarrow> rat list \<Rightarrow> nat \<Rightarrow> string \<times> cell \<Rightarrow> py_exn + string \<times> cell" where
  "metric_row class_index scores i item =
     (if i = 0 then Inr (''Class'', Txt (if class_index = 1 then ''Cancerous'' else ''Non-Cancerous''))
      else if i = 1 then
        (case getitem scores class_index of Inl e \<Rightarrow> Inl e
         | Inr v \<Rightarrow> Inr (''Confidence Score'', Txt (format_fixed 4 v)))
      else if i = 2 then
        (case getitem scores 0 of Inl e \<Rightarrow> Inl e
         | Inr v \<Rightarrow> Inr (''Non-Cancerous Probability'', Txt (format_fixed 4 v)))
      else if i = 3 then
        (case getitem scores 1 of Inl e \<Rightarrow> Inl e
         | Inr v \<Rightarrow> Inr (''Cancerous Probability'', Txt (format_fixed 4 v)))
      else Inr item)"

text \<open>The loop over the rows; a row that raises leaves the rows before it updated.\<close>

fun metric_rows :: "nat \<Rightarrow> rat list \<Rightarrow> nat \<Rightarrow> (string \<times> cell) list \<Rightarrow> (string \<times> cell) list \<times> py_exn option" where
  "metric_rows class_index scores i [] = ([], None)"
| "metric_rows class_index scores i (item # items) =
     (case metric_row class_index scores i item of
        Inl e \<Rightarrow> (item # items, Some e)
      | Inr r \<Rightarrow>
          (case metric_rows class_index scores (Suc i) items of
             (rs, x) \<Rightarrow> (r # rs, x)))"

definition update_metrics :: "app \<Rightarrow> nat \<Rightarrow> rat list \<Rightarrow> outcome" where
  "update_metrics s class_index scores =
     (if length scores \<noteq> 2 \<and> length scores \<noteq> 1
      then (s\<lparr>chart := []\<rparr>, Some (Exn ValueError ''shape mismatch''))
      else
        (let widths = (if length scores = 1 then [hd scores, hd scores] else scores);
             texts = map (\<lambda>score. Some (format_percent 2 score)) scores @ [None];
             bars = map2 (\<lambda>((c, col), width) text. (c, width, col, text))
                      (zip [(''Non-Cancerous'', ''green''), (''Cancerous'', ''red'')] widths) texts
         in case metric_rows class_index scores 0 (metrics_tree s) of
              (rows, x) \<Rightarrow> (s\<lparr>chart := bars, metrics_tree := rows\<rparr>, x)))"

text \<open>
  \<^verbatim>\<open>add_to_history\<close>: \<open>current_date\<close> is \<^verbatim>\<open>datetime.now()\<close> as formatted. The new row
  goes to index 0 of the table. \<^verbatim>\<open>os.path.basename(None)\<close> raises TypeError.
\<close>

definition add_to_history :: "string \<Rightarrow> app \<Rightarrow> nat \<Rightarrow> rat list \<Rightarrow> outcome" where
  "add_to_history current_date s class_index scores =
     (case image_path s of
        None \<Rightarrow> (s, Some (Exn TypeError ''expected str, bytes or os.PathLike object, not NoneType''))
      | Some p \<Rightarrow>
          (let filename = basename p;
               result = (if class_index = 1 then ''Cancer'' else ''No Cancer'')
           in case getitem scores class_index of
                Inl e \<Rightarrow> (s, Some e)
              | Inr c \<Rightarrow>
                  (s\<lparr>history_tree :=
                       (current_date, filename, result, format_percent 2 c) # history_tree s\<rparr>,
                   None)))"

section \<open>Start-up\<close>

definition default_config :: config where
  "default_config =
     \<lparr>model_path = ''cancer_detection_model.h5'', target_size = [48, 48], threshold = 1 / 2\<rparr>"

text \<open>
  \<^verbatim>\<open>load_config\<close> runs before the object has fields: it takes the content of
  \<^verbatim>\<open>config.json\<close> (\<open>None\<close>: no such file) and returns the content afterwards and
  what the call returns or raises. Only FileNotFoundError is handled; a file that is
  not JSON raises. The working directory is taken to be writable.
\<close>

definition load_config :: "file_content option \<Rightarrow> file_content option \<times> (py_exn + config)" where
  "load_config cf =
     (case cf of
        None \<Rightarrow> (Some (JsonConfig default_config), Inr default_config)
      | Some NotJson \<Rightarrow> (cf, Inl (Exn JSONDecodeError ''Expecting value''))
      | Some (JsonConfig c) \<Rightarrow> (cf, Inr c))"

text \<open>The attributes set in \<^verbatim>\<open>__init__\<close>; the widgets do not exist before \<^verbatim>\<open>create_ui\<close>.\<close>

definition new_app :: "config \<Rightarrow> file_content option \<Rightarrow> app" where
  "new_app c cf =
     \<lparr>config = c, image_path = None, model = None, model_loaded = False,
      prediction_made = False, confidence_scores = None, predict_button = Disabled,
      status_var = '''', placeholder_shown = False, image_label = None,
      result_label = ('''', ''''), confidence_label = '''', confidence_bar = 0,
      image_info_label = '''', tab_selected = 0, chart = [], metrics_tree = [],
      history_tree = [], dialogs = [], log = [], config_file = cf, files = Map.empty\<rparr>"

text \<open>
  \<^verbatim>\<open>load_model_file\<close>; \<open>file_path\<close> is what the model file dialog returns when it is
  shown (empty: cancelled). The second \<^verbatim>\<open>load_model\<close> runs inside the handler of
  FileNotFoundError, where the \<^verbatim>\<open>except Exception\<close> clause of the same \<^verbatim>\<open>try\<close> does
  not apply.
\<close>

definition load_model_file :: "env \<Rightarrow> string \<Rightarrow> app \<Rightarrow> outcome" where
  "load_model_file e file_path s =
     (case load_model e (resource_path e (model_path (config s))) of
        Inr m \<Rightarrow>
          (logging (Log INFO ''Model loaded successfully from default path'')
             (s\<lparr>model := Some m, model_loaded := True\<rparr>), None)
      | Inl x \<Rightarrow>
          if exn_cls x = FileNotFoundError then
            (let s1 = logging (Log WARNING ''Default model not found, prompting user selection'') s
             in if file_path \<noteq> [] then
                  (case load_model e file_path of
                     Inl x2 \<Rightarrow> (s1, Some x2)
                   | Inr m \<Rightarrow>
                       (let s2 = s1\<lparr>model := Some m, model_loaded := True,
                                    config := (config s1)\<lparr>model_path := file_path\<rparr>\<rparr>;
                            s3 = s2\<lparr>config_file := Some (JsonConfig (config s2))\<rparr>
                        in (logging (Log INFO (''Model loaded from user-selected path: '' @ file_path)) s3,
                            None)))
                else (s1, None))
          else
            (show_dialog (ShowError ''Model Error'' (''Failed to load model: '' @ str_exn x))
               (logging (Log ERROR (''Failed to load model: '' @ str_exn x))
                  (s\<lparr>model_loaded := False\<rparr>)), None))"

text \<open>\<^verbatim>\<open>create_ui\<close> with the three tabs: the widgets the methods read or write.\<close>

definition create_ui :: "app \<Rightarrow> app" where
  "create_ui s =
     (let s1 = s\<lparr>placeholder_shown := True, predict_button := Disabled,
                 status_var := ''Please upload an image to begin'',
                 result_label := (''No prediction yet'', ''''),
                 confidence_label := ''Confidence: --'', confidence_bar := 0,
                 image_info_label := ''Image: None'', tab_selected := 0, chart := [],
                 metrics_tree :=
                   [(''Class'', Txt ''--''), (''Confidence Score'', Txt ''--''),
                    (''Non-Cancerous Probability'', Txt ''--''),
                    (''Cancerous Probability'', Txt ''--''),
                    (''Decision Threshold'', Num (threshold (config s)))],
                 history_tree := []\<rparr>
      in if \<not> model_loaded s1
         then show_dialog (ShowWarning ''Model Not Found''
                ''Please ensure a valid model file is available.'') s1
         else s1)"

text \<open>
  \<^verbatim>\<open>__init__\<close>: \<open>cf\<close> is \<^verbatim>\<open>config.json\<close> before the start, \<open>model_choice\<close> the answer of the
  model file dialog. An exception out of \<^verbatim>\<open>load_config\<close> or \<^verbatim>\<open>load_model_file\<close> ends the
  constructor: there is no application then.
\<close>

definition init :: "env \<Rightarrow> string \<Rightarrow> file_content option \<Rightarrow> py_exn + app" where
  "init e model_choice cf =
     (case load_config cf of
        (cf1, Inl x) \<Rightarrow> Inl x
      | (cf1, Inr c) \<Rightarrow>
          (case load_model_file e model_choice (new_app c cf1) of
             (s1, Some x) \<Rightarrow> Inl x
           | (s1, None) \<Rightarrow> Inr (create_ui s1)))"

section \<open>Loading and showing an image\<close>

text \<open>\<^verbatim>\<open>int(x)\<close> of a float: truncation towards zero.\<close>

definition py_int :: "rat \<Rightarrow> int" where
  "py_int x = (if 0 \<le> x then \<lfloor>x\<rfloor> else \<lceil>x\<rceil>)"

definition show_int :: "int \<Rightarrow> string" where
  "show_int i = (if i < 0 then ''-'' @ show_nat (nat (- i)) else show_nat (nat i))"

text \<open>\<^verbatim>\<open>min\<close> of a list.\<close>

definition py_min :: "int list \<Rightarrow> py_exn + int" where
  "py_min xs =
     (case xs of
        [] \<Rightarrow> Inl (Exn ValueError ''min() arg is an empty sequence'')
      | x # rest \<Rightarrow> Inr (fold min rest x))"

text \<open>
  \<^verbatim>\<open>resize_image_aspect_ratio\<close>: the two quotients are true divisions, so a zero width
  or height raises, and they and the two products are operations on Python floats; the
  new size goes to \<^verbatim>\<open>img.resize\<close> with the LANCZOS filter.
\<close>

definition resize_image_aspect_ratio :: "env \<Rightarrow> image \<Rightarrow> int \<times> int \<Rightarrow> py_exn + image" where
  "resize_image_aspect_ratio e img max_size =
     (let width = fst (img_size img); height = snd (img_size img)
      in if width = 0 \<or> height = 0 then Inl (Exn ZeroDivisionError ''division by zero'')
         else
           (let ratio = min (f64_round (of_int (fst max_size) / of_int width))
                            (f64_round (of_int (snd max_size) / of_int height));
                new_size = [py_int (f64_round (of_int width * ratio)),
                            py_int (f64_round (of_int height * ratio))]
            in image_resize e img new_size (Some ''LANCZOS'')))"

definition load_and_display_image :: "env \<Rightarrow> string \<Rightarrow> app \<Rightarrow> outcome" where
  "load_and_display_image e file_path s =
     (let s1 = s\<lparr>placeholder_shown := False\<rparr>
      in case image_open e file_path of
           Inl x \<Rightarrow> (s1, Some x)
         | Inr img \<Rightarrow>
             (case resize_image_aspect_ratio e img (350, 350) of
                Inl x \<Rightarrow> (s1, Some x)
              | Inr img2 \<Rightarrow>
                  (case photo_image e img2 of
                     Inl x \<Rightarrow> (s1, Some x)
                   | Inr photo \<Rightarrow> (s1\<lparr>image_label := Some photo\<rparr>, None))))"

text \<open>The body of the \<^verbatim>\<open>try\<close> in \<^verbatim>\<open>upload_image\<close>.\<close>

definition upload_image_try :: "env \<Rightarrow> string \<Rightarrow> app \<Rightarrow> outcome" where
  "upload_image_try e file_path s =
     (case image_open e file_path of
        Inl x \<Rightarrow> (s, Some x)
      | Inr img \<Rightarrow>
          (case py_min (target_size (config s)) of
             Inl x \<Rightarrow> (s, Some x)
           | Inr min_size \<Rightarrow>
               if fst (img_size img) < min_size \<or> snd (img_size img) < min_size then
                 (show_dialog (ShowWarning ''Warning''
                    (''Image must be at least '' @ show_int min_size @ ''x'' @ show_int min_size
                     @ '' pixels.'')) s, None)
               else
                 (case load_and_display_image e file_path (s\<lparr>image_path := Some file_path\<rparr>) of
                    (s2, Some x) \<Rightarrow> (s2, Some x)
                  | (s2, None) \<Rightarrow>
                      (logging (Log INFO (''Image uploaded: '' @ file_path))
                         (s2\<lparr>status_var := ''Image loaded: '' @ basename file_path,
                             predict_button := Normal,
                             image_info_label := ''Image: '' @ basename file_path\<rparr>), None))))"

text \<open>\<^verbatim>\<open>upload_image\<close>; \<open>file_path\<close> is the answer of the image file dialog (empty: cancelled).\<close>

definition upload_image :: "env \<Rightarrow> string \<Rightarrow> app \<Rightarrow> outcome" where
  "upload_image e file_path s =
     (if file_path \<noteq> [] then
        (case upload_image_try e file_path s of
           (s1, None) \<Rightarrow> (s1, None)
         | (s1, Some x) \<Rightarrow>
             (logging (Log ERROR (''Image upload failed: '' @ str_exn x))
                (show_dialog (ShowError ''Error'' (''Invalid image file: '' @ str_exn x)) s1), None))
      else (s, None))"

section \<open>Prediction\<close>

text \<open>
  \<^verbatim>\<open>img_to_array\<close>: the pixel data as a float32 array, shape (height, width, bands).
  Dividing it by the Python float 255.0 gives a float32 array again.
\<close>

definition img_to_array :: "image \<Rightarrow> py_exn + tensor3" where
  "img_to_array img =
     (case img_data img of
        Inl x \<Rightarrow> Inl x
      | Inr d \<Rightarrow> Inr (map (map (map (\<lambda>v. f32_round (of_int v)))) d))"

definition preprocess_image :: "env \<Rightarrow> app \<Rightarrow> image \<Rightarrow> py_exn + tensor4" where
  "preprocess_image e s img =
     (if \<not> model_loaded s then Inl (Exn ValueError ''Model not loaded'')
      else
        (let input_shape = target_size (config s)
         in case (if img_mode img \<noteq> ''RGB'' then image_convert e img ''RGB'' else Inr img) of
              Inl x \<Rightarrow> Inl x
            | Inr img1 \<Rightarrow>
                (case image_resize e img1 input_shape None of
                   Inl x \<Rightarrow> Inl x
                 | Inr img2 \<Rightarrow>
                     (case img_to_array img2 of
                        Inl x \<Rightarrow> Inl x
                      | Inr a \<Rightarrow> Inr (map (map (map (map (\<lambda>v. f32_round (v / 255))))) [a])))))"

text \<open>
  The body of the \<^verbatim>\<open>try\<close> in \<^verbatim>\<open>predict_cancer\<close>, entered with an image path \<open>p\<close>.
  \<^verbatim>\<open>np.argmax(predictions, axis=1)[0]\<close> is the arg-max of the first row.
\<close>

definition predict_cancer_try :: "env \<Rightarrow> string \<Rightarrow> string \<Rightarrow> app \<Rightarrow> outcome" where
  "predict_cancer_try e current_date p s =
     (let s1 = logging (Log INFO (''Predicting for image: '' @ p)) s
      in case image_open e p of
           Inl x \<Rightarrow> (s1, Some x)
         | Inr img_pil \<Rightarrow>
         (case preprocess_image e s1 img_pil of
           Inl x \<Rightarrow> (s1, Some x)
         | Inr processed_img \<Rightarrow>
         (case (case model s1 of
                  None \<Rightarrow> Inl (Exn AttributeError
                           ([CHR 0x27] @ ''NoneType'' @ [CHR 0x27] @ '' object has no attribute ''
                            @ [CHR 0x27] @ ''predict'' @ [CHR 0x27]))
                | Some m \<Rightarrow> m processed_img) of
           Inl x \<Rightarrow> (s1, Some x)
         | Inr predictions \<Rightarrow>
         (case (case predictions of
                  [] \<Rightarrow> Inl (Exn IndexError ''index 0 is out of bounds for axis 0 with size 0'')
                | row # _ \<Rightarrow> np_argmax row) of
           Inl x \<Rightarrow> (s1, Some x)
         | Inr class_index \<Rightarrow>
         (let scores = hd predictions;
              s2 = s1\<lparr>confidence_scores := Some scores\<rparr>
          in case update_results e s2 class_index scores of
               (s3, Some x) \<Rightarrow> (s3, Some x)
             | (s3, None) \<Rightarrow>
          (case update_metrics s3 class_index scores of
               (s4, Some x) \<Rightarrow> (s4, Some x)
             | (s4, None) \<Rightarrow>
          (case add_to_history current_date s4 class_index scores of
               (s5, Some x) \<Rightarrow> (s5, Some x)
             | (s5, None) \<Rightarrow>
                 (logging (LogScores INFO ''Prediction completed: Class {}, Confidence {}''
                             class_index scores)
                    (s5\<lparr>prediction_made := True, status_var := ''Prediction complete'',
                        tab_selected := 0\<rparr>), None))))))))"

text \<open>
  \<^verbatim>\<open>predict_cancer\<close>; the progress bar is created before the \<^verbatim>\<open>try\<close> and removed in its
  \<^verbatim>\<open>finally\<close>, and is not part of the record.
\<close>

definition predict_cancer :: "env \<Rightarrow> string \<Rightarrow> app \<Rightarrow> outcome" where
  "predict_cancer e current_date s =
     (if \<not> model_loaded s then
        (show_dialog (ShowError ''Error'' ''Model not loaded. Cannot make prediction.'') s, None)
      else
        (case image_path s of
           None \<Rightarrow> (show_dialog (ShowError ''Error'' ''No image selected.'') s, None)
         | Some p \<Rightarrow>
             if p = [] then (show_dialog (ShowError ''Error'' ''No image selected.'') s, None)
             else
               (case predict_cancer_try e current_date p (s\<lparr>status_var := ''Processing...''\<rparr>) of
                  (s1, None) \<Rightarrow> (s1, None)
                | (s1, Some x) \<Rightarrow>
                    (logging (Log ERROR (''Prediction failed: '' @ str_exn x))
                       (show_dialog (ShowError ''Error'' (''Prediction failed: '' @ str_exn x)) s1),
                     None))))"

section \<open>History\<close>

definition clear_history :: "app \<Rightarrow> outcome" where
  "clear_history s = (logging (Log INFO ''History cleared'') (s\<lparr>history_tree := []\<rparr>), None)"

definition csv_header :: string where
  "csv_header = ''Date,Filename,Result,Confidence'' @ [CHR 0x0A]"

fun csv_line :: "string \<times> string \<times> string \<times> string \<Rightarrow> string" where
  "csv_line (v0, v1, v2, v3) = v0 @ '','' @ v1 @ '','' @ v2 @ '','' @ v3 @ [CHR 0x0A]"

text \<open>
  \<^verbatim>\<open>export_history\<close>; \<open>file_path\<close> is the answer of the save dialog (empty: cancelled). The
  file is the concatenation of the strings written: the header, then one string per row
  of the table from the top.
\<close>

definition export_history :: "env \<Rightarrow> string \<Rightarrow> app \<Rightarrow> outcome" where
  "export_history e file_path s =
     (if history_tree s = [] then
        (show_dialog (ShowInfo ''Info'' ''No history to export.'') s, None)
      else if file_path \<noteq> [] then
        (case open_write e file_path of
           Some x \<Rightarrow>
             (logging (Log ERROR (''History export failed: '' @ str_exn x))
                (show_dialog (ShowError ''Error'' (''Failed to export history: '' @ str_exn x)) s),
              None)
         | None \<Rightarrow>
             (logging (Log INFO (''History exported to '' @ file_path))
                (show_dialog (ShowInfo ''Success'' (''History exported to '' @ file_path))
                   (s\<lparr>files := (files s)(file_path \<mapsto>
                          concat (csv_header # map csv_line (history_tree s)))\<rparr>)),
              None))
      else (s, None))"

section \<open>The event loop\<close>

text \<open>
  What the user can do once the window is up. A click on the disabled prediction button
  does nothing: Tk does not run the command of a disabled button.
\<close>

datatype event =
  UploadClick string | PredictClick string | ClearHistoryClick | ExportHistoryClick string

definition handle :: "env \<Rightarrow> event \<Rightarrow> app \<Rightarrow> app" where
  "handle e ev s =
     (case ev of
        UploadClick file_path \<Rightarrow> fst (upload_image e file_path s)
      | PredictClick current_date \<Rightarrow>
          (if predict_button s = Normal then fst (predict_cancer e current_date s) else s)
      | ClearHistoryClick \<Rightarrow> fst (clear_history s)
      | ExportHistoryClick file_path \<Rightarrow> fst (export_history e file_path s))"

fun run :: "env \<Rightarrow> event list \<Rightarrow> app \<Rightarrow> app" where
  "run e [] s = s"
| "run e (ev # evs) s = run e evs (handle e ev s)"

section \<open>Notions the properties are stated with\<close>

text \<open>
  A decoded image as PIL holds it: \<open>height\<close> rows of \<open>width\<close> pixels, and in mode RGB
  three bands of 8 bits a pixel.
\<close>

definition rgb_pixel :: "int list \<Rightarrow> bool" where
  "rgb_pixel px = (length px = 3 \<and> list_all (\<lambda>v. 0 \<le> v \<and> v \<le> 255) px)"

definition loaded_image :: "image \<Rightarrow> bool" where
  "loaded_image img =
     (case img_data img of
        Inl x \<Rightarrow> False
      | Inr d \<Rightarrow>
          length d = nat (snd (img_size img)) \<and>
          list_all (\<lambda>row. length row = nat (fst (img_size img)) \<and>
                          (img_mode img \<noteq> ''RGB'' \<or> list_all rgb_pixel row)) d)"

text \<open>The shape of a four-dimensional array whose rows have the lengths given.\<close>

definition has_shape :: "tensor4 \<Rightarrow> nat \<Rightarrow> nat \<Rightarrow> nat \<Rightarrow> nat \<Rightarrow> bool" where
  "has_shape t n h w c =
     (length t = n \<and>
      list_all (\<lambda>a. length a = h \<and>
        list_all (\<lambda>row. length row = w \<and> list_all (\<lambda>px. length px = c) row) a) t)"

definition all_elements :: "(rat \<Rightarrow> bool) \<Rightarrow> tensor4 \<Rightarrow> bool" where
  "all_elements P t = list_all (list_all (list_all (list_all P))) t"




text \<open>
  The prediction button is disabled, or else an image is on display and a path is
  selected.
\<close>

definition image_shown :: "app \<Rightarrow> bool" where
  "image_shown s =
     (predict_button s = Disabled \<or>
      image_label s \<noteq> None \<and> (\<exists>p. p \<noteq> [] \<and> image_path s = Some p))"

section \<open>A sample environment\<close>

text \<open>
  One concrete world to run the program in: a directory \<^verbatim>\<open>/app\<close> with the model file, a
  model that answers (0.4, 0.6) to everything, three image files, an imaging library
  that resamples by nearest neighbour, clamps RGB bands to 8 bits, refuses an empty
  size and cannot decode a truncated file, and NumPy 2.
\<close>

definition rgb_of :: "int list \<Rightarrow> int list" where
  "rgb_of px = map (\<lambda>k. max 0 (min 255 (if k < length px then px ! k else 0))) [0, 1, 2]"

definition sample_lookup :: "int list list list \<Rightarrow> nat \<Rightarrow> nat \<Rightarrow> int list" where
  "sample_lookup d y x = (if y < length d \<and> x < length (d ! y) then d ! y ! x else [])"

definition sample_pixels ::
  "bool \<Rightarrow> int list list list \<Rightarrow> int \<times> int \<Rightarrow> int \<times> int \<Rightarrow> int list list list" where
  "sample_pixels rgb d old new =
     map (\<lambda>y. map (\<lambda>x. (if rgb then rgb_of else id)
                          (sample_lookup d (y * nat (snd old) div nat (snd new))
                                           (x * nat (fst old) div nat (fst new))))
                 [0..<nat (fst new)])
         [0..<nat (snd new)]"

definition sample_convert :: "image \<Rightarrow> string \<Rightarrow> py_exn + image" where
  "sample_convert img m =
     (case img_data img of
        Inl x \<Rightarrow> Inl x
      | Inr d \<Rightarrow>
          Inr \<lparr>img_mode = m, img_size = img_size img,
               img_data = Inr (sample_pixels (m = ''RGB'') d (img_size img) (img_size img))\<rparr>)"

definition sample_resize :: "image \<Rightarrow> int list \<Rightarrow> string option \<Rightarrow> py_exn + image" where
  "sample_resize img sz resample =
     (case sz of
        [w, h] \<Rightarrow>
          if w < 1 \<or> h < 1 then Inl (Exn ValueError ''height and width must be > 0'')
          else
            (case img_data img of
               Inl x \<Rightarrow> Inl x
             | Inr d \<Rightarrow>
                 Inr \<lparr>img_mode = img_mode img, img_size = (w, h),
                      img_data = Inr (sample_pixels (img_mode img = ''RGB'') d (img_size img) (w, h))\<rparr>)
      | _ \<Rightarrow> Inl (Exn ValueError ''size must be a pair''))"

definition sample_open :: "string \<Rightarrow> py_exn + image" where
  "sample_open p =
     (if p = ''/data/cell.png'' then
        Inr \<lparr>img_mode = ''RGB'', img_size = (64, 64),
             img_data = Inr (replicate 64 (replicate 64 [200, 30, 90]))\<rparr>
      else if p = ''/data/strip.png'' then
        Inr \<lparr>img_mode = ''RGB'', img_size = (1000, 3),
             img_data = Inr (replicate 3 (replicate 1000 [200, 30, 90]))\<rparr>
      else if p = ''/data/truncated.png'' then
        Inr \<lparr>img_mode = ''RGB'', img_size = (100, 100),
             img_data = Inl (Exn OSError ''image file is truncated'')\<rparr>
      else Inl (Exn FileNotFoundError ''No such file or directory''))"

definition sample_model :: keras_model where
  "sample_model t = Inr [[2 / 5, 3 / 5]]"

definition sample_env :: env where
  "sample_env =
     \<lparr>image_open = sample_open, image_convert = sample_convert, image_resize = sample_resize,
      photo_image = Inr,
      load_model = (\<lambda>p. if p = ''/app/cancer_detection_model.h5'' then Inr sample_model
                         else Inl (Exn FileNotFoundError ''No such file or directory'')),
      open_write = (\<lambda>p. None), base_path = ''/app'', np_float = f32_round\<rparr>"

text \<open>The application started in the sample environment on a given \<^verbatim>\<open>config.json\<close>.\<close>

definition sample_app :: "file_content option \<Rightarrow> app" where
  "sample_app cf = (case init sample_env [] cf of Inr s \<Rightarrow> s | Inl x \<Rightarrow> new_app default_config cf)"

text \<open>
  A session in the sample environment: the configured threshold is \<open>thr\<close>, the user
  loads \<^verbatim>\<open>/data/cell.png\<close> and asks for a prediction.
\<close>

definition sample_session :: "rat \<Rightarrow> app" where
  "sample_session thr =
     run sample_env [UploadClick ''/data/cell.png'', PredictClick ''2025-01-01 10:00'']
       (sample_app (Some (JsonConfig (default_config\<lparr>threshold := thr\<rparr>))))"


text \<open>
  Variants of the sample environment: a model file that is there but is not a model, no
  model file at the configured place, and a model whose inference raises.
\<close>

definition corrupt_model_env :: env where
  "corrupt_model_env =
     sample_env\<lparr>load_model := (\<lambda>p. Inl (Exn OSError ''file signature not found''))\<rparr>"

definition missing_model_env :: env where
  "missing_model_env = sample_env\<lparr>base_path := ''/elsewhere''\<rparr>"

definition failing_model :: keras_model where
  "failing_model t = Inl (Exn ValueError ''incompatible input shape'')"

text \<open>
  A model whose scores are float32 values, the second one the float32 nearest to 0.7,
  and a threshold that is the Python float nearest to 0.7.
\<close>

definition float32_scores :: "rat list" where
  "float32_scores = [5033165 / 16777216, 11744051 / 16777216]"

definition double_seven_tenths :: rat where
  "double_seven_tenths = 3152519739159347 / 4503599627370496"



section \<open>Rounding to a floating-point format\<close>

lemma round_half_even_cases:
  "round_half_even y = \<lfloor>y\<rfloor> \<and> y - of_int \<lfloor>y\<rfloor> \<le> 1 / 2 \<or>
   round_half_even y = \<lfloor>y\<rfloor> + 1 \<and> 1 / 2 \<le> y - of_int \<lfloor>y\<rfloor>"
  by (auto simp: round_half_even_def Let_def)

lemma round_half_even_error: "\<bar>of_int (round_half_even y) - y\<bar> \<le> 1 / 2"
proof -
  have f: "of_int \<lfloor>y\<rfloor> \<le> y" "y < of_int \<lfloor>y\<rfloor> + 1" by linarith+
  show ?thesis using round_half_even_cases [of y] f by auto
qed

lemma round_half_even_ge: "of_int n \<le> y \<Longrightarrow> n \<le> round_half_even y"
proof -
  assume "of_int n \<le> y"
  then have "n \<le> \<lfloor>y\<rfloor>" by (simp add: le_floor_iff)
  then show ?thesis using round_half_even_cases [of y] by auto
qed

lemma round_half_even_le: "y \<le> of_int n \<Longrightarrow> round_half_even y \<le> n"
proof (cases "y = of_int n")
  case True
  then show ?thesis by (simp add: round_half_even_def)
next
  case False
  assume "y \<le> of_int n"
  then have "y < of_int n" using False by simp
  then have "\<lfloor>y\<rfloor> < n" by (simp add: floor_less_iff)
  then show ?thesis using round_half_even_cases [of y] by auto
qed

lemma round_half_even_eq:
  assumes "of_int n - 1 / 2 < y" and "y < of_int n + 1 / 2"
  shows "round_half_even y = n"
proof -
  have f: "of_int \<lfloor>y\<rfloor> \<le> y" "y < of_int \<lfloor>y\<rfloor> + 1" by linarith+
  from round_half_even_cases [of y] show ?thesis
  proof (elim disjE conjE)
    assume r: "round_half_even y = \<lfloor>y\<rfloor>" and d: "y - of_int \<lfloor>y\<rfloor> \<le> 1 / 2"
    have "(of_int \<lfloor>y\<rfloor> :: rat) < of_int n + 1" using f assms by linarith
    then have "(of_int \<lfloor>y\<rfloor> :: rat) < of_int (n + 1)" by simp
    then have u: "\<lfloor>y\<rfloor> < n + 1" by (simp only: of_int_less_iff)
    have "(of_int n :: rat) - 1 < of_int \<lfloor>y\<rfloor>" using d assms by linarith
    then have "(of_int (n - 1) :: rat) < of_int \<lfloor>y\<rfloor>" by simp
    then have l: "n - 1 < \<lfloor>y\<rfloor>" by (simp only: of_int_less_iff)
    show ?thesis using r u l by simp
  next
    assume r: "round_half_even y = \<lfloor>y\<rfloor> + 1" and d: "1 / 2 \<le> y - of_int \<lfloor>y\<rfloor>"
    have "(of_int \<lfloor>y\<rfloor> :: rat) < of_int n" using d assms by linarith
    then have u: "\<lfloor>y\<rfloor> < n" by (simp only: of_int_less_iff)
    have "(of_int n :: rat) - 2 < of_int \<lfloor>y\<rfloor>" using f assms by linarith
    then have "(of_int (n - 2) :: rat) < of_int \<lfloor>y\<rfloor>" by simp
    then have l: "n - 2 < \<lfloor>y\<rfloor>" by (simp only: of_int_less_iff)
    show ?thesis using r u l by simp
  qed
qed

lemma pow2_bitlen:
  assumes "0 < a"
  shows "(2::rat) powi (bitlen a - 1) \<le> of_int a" "of_int a < (2::rat) powi bitlen a"
proof -
  have b: "2 ^ nat (bitlen a - 1) \<le> a" "a < 2 ^ nat (bitlen a)"
    using bitlen_bounds [OF assms] by simp_all
  have p: "1 \<le> bitlen a" using assms by (simp add: bitlen_alt_def)
  have "(2::rat) powi (bitlen a - 1) = of_int (2 ^ nat (bitlen a - 1))"
    using p by (simp add: power_int_def)
  also have "\<dots> \<le> of_int a" using b(1) by (simp only: of_int_le_iff)
  finally show "(2::rat) powi (bitlen a - 1) \<le> of_int a" .
  have "(of_int a :: rat) < of_int (2 ^ nat (bitlen a))" using b(2) by (simp only: of_int_less_iff)
  also have "\<dots> = 2 powi bitlen a" using p by (simp add: power_int_def)
  finally show "of_int a < (2::rat) powi bitlen a" .
qed

lemma floor_log2_bounds:
  assumes "0 < x"
  shows "2 powi floor_log2 x \<le> x" "x < 2 powi (floor_log2 x + 1)"
proof -
  obtain a b where q: "quotient_of x = (a, b)" by (cases "quotient_of x")
  have b: "0 < b" using quotient_of_denom_pos [OF q] .
  have x: "x = of_int a / of_int b" using quotient_of_div [OF q] .
  have a: "0 < a" using assms b x by (simp add: zero_less_divide_iff)
  let ?k = "bitlen a - bitlen b"
  note A = pow2_bitlen [OF a] and B = pow2_bitlen [OF b]
  have bp: "(0::rat) < of_int b" using b by simp
  have up: "x < 2 powi (?k + 1)"
  proof -
    have "of_int a < (2::rat) powi bitlen a" by (rule A(2))
    also have "\<dots> = 2 powi (?k + 1) * 2 powi (bitlen b - 1)"
      by (simp add: power_int_add [symmetric])
    also have "\<dots> \<le> 2 powi (?k + 1) * of_int b"
      using B(1) by (intro mult_left_mono) simp_all
    finally show ?thesis using bp by (simp add: x pos_divide_less_eq)
  qed
  have lo: "2 powi (?k - 1) < x"
  proof -
    have "2 powi (?k - 1) * of_int b < 2 powi (?k - 1) * (2::rat) powi bitlen b"
      using B(2) by (intro mult_strict_left_mono) simp_all
    also have "\<dots> = 2 powi (bitlen a - 1)" by (simp add: power_int_add [symmetric])
    also have "\<dots> \<le> of_int a" by (rule A(1))
    finally show ?thesis using bp by (simp add: x pos_less_divide_eq)
  qed
  show "2 powi floor_log2 x \<le> x"
    using lo by (auto simp: floor_log2_def q Let_def)
  show "x < 2 powi (floor_log2 x + 1)"
    using up by (auto simp: floor_log2_def q Let_def)
qed

lemma floor_log2_unique:
  assumes "0 < x" "2 powi e \<le> x" "x < 2 powi (e + 1)"
  shows "floor_log2 x = e"
proof (rule ccontr)
  assume n: "floor_log2 x \<noteq> e"
  note b = floor_log2_bounds [OF assms(1)]
  show False
  proof (cases "floor_log2 x < e")
    case True
    then have "(2::rat) powi (floor_log2 x + 1) \<le> 2 powi e"
      by (intro power_int_increasing) simp_all
    then show False using b(2) assms(2) by linarith
  next
    case False
    then have "e + 1 \<le> floor_log2 x" using n by simp
    then have "(2::rat) powi (e + 1) \<le> 2 powi floor_log2 x"
      by (intro power_int_increasing) simp_all
    then show False using b(1) assms(3) by linarith
  qed
qed

lemma fl_round_at:
  assumes "0 < x" "2 powi e \<le> x" "x < 2 powi (e + 1)"
  shows "fl_round p x
         = of_int (round_half_even (x / 2 powi (e - int p + 1))) * 2 powi (e - int p + 1)"
  using assms floor_log2_unique [OF assms] by (simp add: fl_round_def Let_def)

lemma fl_round_error:
  assumes "0 < x"
  shows "\<bar>fl_round p x - x\<bar> \<le> x * 2 powi (- int p)"
proof -
  define e where "e = floor_log2 x"
  define q :: rat where "q = 2 powi (e - int p + 1)"
  define r :: rat where "r = of_int (round_half_even (x / q))"
  have q: "0 < q" by (simp add: q_def)
  have f: "fl_round p x = r * q"
    using assms by (simp add: fl_round_def Let_def r_def q_def e_def)
  have "r * q - x = (r - x / q) * q" using q by (simp add: field_simps)
  then have "\<bar>fl_round p x - x\<bar> = \<bar>r - x / q\<bar> * q"
    unfolding f using q by (simp add: abs_mult)
  also have "\<dots> \<le> 1 / 2 * q"
    using round_half_even_error [of "x / q"] q unfolding r_def by (intro mult_right_mono) simp_all
  also have "\<dots> = 2 powi e * 2 powi (- int p)"
  proof -
    have "q = 2 powi (e + (- int p) + 1)" by (simp add: q_def)
    also have "\<dots> = 2 powi e * 2 powi (- int p) * 2"
      by (simp add: power_int_add power_int_diff power_int_minus field_simps)
    finally show ?thesis by simp
  qed
  also have "\<dots> \<le> x * 2 powi (- int p)"
    using floor_log2_bounds(1) [OF assms] unfolding e_def by (intro mult_right_mono) simp_all
  finally show ?thesis .
qed

lemma fl_round_unit:
  assumes "0 \<le> x" "x \<le> 1" "0 < p"
  shows "0 \<le> fl_round p x \<and> fl_round p x \<le> 1"
proof (cases "x = 0")
  case True
  then show ?thesis by (simp add: fl_round_def)
next
  case False
  then have x: "0 < x" using assms by simp
  define e where "e = floor_log2 x"
  define q :: rat where "q = 2 powi (e - int p + 1)"
  note b = floor_log2_bounds [OF x, folded e_def]
  have q: "0 < q" by (simp add: q_def)
  have f: "fl_round p x = of_int (round_half_even (x / q)) * q"
    using x by (simp add: fl_round_def Let_def q_def e_def)
  have pq: "2 powi int p * q = 2 powi (e + 1)"
  proof -
    have "(2::rat) powi (e + 1) = 2 powi (int p + (e - int p + 1))" by simp
    also have "\<dots> = 2 powi int p * 2 powi (e - int p + 1)"
      by (rule power_int_add) simp
    finally show ?thesis by (simp add: q_def)
  qed
  have "of_int 0 \<le> x / q" using x q by simp
  then have lo: "0 \<le> round_half_even (x / q)" by (rule round_half_even_ge)
  have nat_pow: "(2::rat) powi int p = of_int (2 ^ p)" by (simp add: power_int_of_nat)
  show ?thesis
  proof (cases "x = 1")
    case True
    have "floor_log2 1 = 0" by (rule floor_log2_unique) simp_all
    then have e: "e = 0" using True by (simp add: e_def)
    have "x / q = 2 powi int p / 2" using pq True e q by (simp add: field_simps)
    also have "\<dots> = of_int (2 ^ (p - 1))"
    proof -
      obtain n where n: "p = Suc n" using assms(3) by (cases p) simp_all
      have "(2::rat) powi int p = 2 ^ Suc n" unfolding n by (rule power_int_of_nat)
      then show ?thesis by (simp add: n)
    qed
    finally have y: "x / q = of_int (2 ^ (p - 1))" .
    have "round_half_even (x / q) = 2 ^ (p - 1)"
      unfolding y by (rule round_half_even_eq) simp_all
    then have "fl_round p x = x / q * q" unfolding f y by simp
    then show ?thesis using q True by simp
  next
    case False
    then have x1: "x < 1" using assms by simp
    have e0: "e + 1 \<le> 0"
    proof (rule ccontr)
      assume "\<not> e + 1 \<le> 0"
      then have "(2::rat) powi 0 \<le> 2 powi e" by (intro power_int_increasing) simp_all
      then show False using b(1) x1 by simp
    qed
    have "x / q \<le> 2 powi (e + 1) / q" using b(2) q by (simp add: divide_right_mono)
    also have "\<dots> = 2 powi int p" using pq q by (simp add: field_simps)
    also have "\<dots> = of_int (2 ^ p)" by (rule nat_pow)
    finally have "round_half_even (x / q) \<le> 2 ^ p" by (rule round_half_even_le)
    then have "(of_int (round_half_even (x / q)) :: rat) \<le> of_int (2 ^ p)"
      by (simp only: of_int_le_iff)
    then have "of_int (round_half_even (x / q)) * q \<le> of_int (2 ^ p) * q"
      using q by (intro mult_right_mono) simp_all
    also have "\<dots> = 2 powi (e + 1)" using pq nat_pow by simp
    also have "\<dots> \<le> 2 powi 0" using e0 by (intro power_int_increasing) simp_all
    finally have hi: "fl_round p x \<le> 1" unfolding f by simp
    have "0 \<le> fl_round p x" unfolding f using lo q by simp
    then show ?thesis using hi by simp
  qed
qed

lemma round_half_even_of_int: "round_half_even (of_int m) = m"
  by (simp add: round_half_even_def)

lemma fl_round_of_int:
  assumes k: "0 < k" and b: "k < 2 ^ p"
  shows "fl_round p (of_int k) = of_int k"
proof -
  define x :: rat where "x = of_int k"
  define e where "e = floor_log2 x"
  have x: "0 < x" using k by (simp add: x_def)
  note fb = floor_log2_bounds [OF x, folded e_def]
  have e0: "0 \<le> e"
  proof (rule ccontr)
    assume "\<not> 0 \<le> e"
    then have "e + 1 \<le> 0" by simp
    then have "(2::rat) powi (e + 1) \<le> 2 powi 0" by (intro power_int_increasing) simp_all
    then have "x < 1" using fb(2) by simp
    then have "(of_int k :: rat) < of_int 1" by (simp add: x_def)
    then have "k < 1" by (simp only: of_int_less_iff)
    then show False using k by simp
  qed
  have ep: "e < int p"
  proof (rule ccontr)
    assume "\<not> e < int p"
    then have "(2::rat) powi int p \<le> 2 powi e" by (intro power_int_increasing) simp_all
    then have "(2::rat) ^ p \<le> x" using fb(1) by (simp add: power_int_of_nat)
    then have "(of_int (2 ^ p) :: rat) \<le> of_int k" by (simp add: x_def)
    then have "2 ^ p \<le> k" by (simp only: of_int_le_iff)
    then show False using b by simp
  qed
  define n where "n = nat (int p - 1 - e)"
  define q :: rat where "q = 2 powi (e - int p + 1)"
  have q: "0 < q" by (simp add: q_def)
  have "q * 2 ^ n = 2 powi (e - int p + 1) * 2 powi (int n)"
    by (simp add: q_def power_int_of_nat)
  also have "\<dots> = 2 powi ((e - int p + 1) + int n)" by (rule power_int_add [symmetric]) simp
  also have "(e - int p + 1) + int n = 0" using ep by (simp add: n_def)
  finally have qn: "q * 2 ^ n = 1" by simp
  have "x / q = x * 2 ^ n" using qn q by (simp add: field_simps)
  also have "\<dots> = of_int (k * 2 ^ n)" by (simp add: x_def)
  finally have y: "x / q = of_int (k * 2 ^ n)" .
  have "fl_round p x = of_int (round_half_even (x / q)) * q"
    using x by (simp add: fl_round_def Let_def q_def e_def)
  also have "\<dots> = of_int (k * 2 ^ n) * q" unfolding y round_half_even_of_int ..
  also have "\<dots> = x * (q * 2 ^ n)" by (simp add: x_def)
  also have "\<dots> = x" unfolding qn by simp
  finally show ?thesis by (simp add: x_def)
qed

lemma round_half_even_at:
  assumes "of_int f \<le> y" "y < of_int f + 1"
  shows "round_half_even y
         = (let d = y - of_int f
            in if d < 1 / 2 then f else if 1 / 2 < d then f + 1 else if even f then f else f + 1)"
proof -
  have "\<lfloor>y\<rfloor> = f" using assms by (simp add: floor_eq_iff)
  then show ?thesis by (simp add: round_half_even_def Let_def)
qed

lemma fl_round_eval:
  assumes "0 < x" "2 powi e \<le> x" "x < 2 powi (e + 1)"
    and "of_int f \<le> x / 2 powi (e - int p + 1)" "x / 2 powi (e - int p + 1) < of_int f + 1"
  shows "fl_round p x
         = of_int (let d = x / 2 powi (e - int p + 1) - of_int f
                   in if d < 1 / 2 then f else if 1 / 2 < d then f + 1
                      else if even f then f else f + 1) * 2 powi (e - int p + 1)"
  unfolding fl_round_at [OF assms(1-3)] round_half_even_at [OF assms(4,5)] ..

lemma min_ratio:
  fixes a b A B u :: rat
  assumes "0 < a" "a \<le> b" "0 \<le> u" "u \<le> 1" "\<bar>A - a\<bar> \<le> a * u" "\<bar>B - b\<bar> \<le> b * u"
  shows "\<bar>min A B - a\<bar> \<le> a * u"
proof -
  have "a * (1 - u) \<le> b * (1 - u)" using assms by (intro mult_right_mono) simp_all
  then have m: "a - a * u \<le> b - b * u" by (simp add: right_diff_distrib)
  have "A - a \<le> \<bar>A - a\<bar>" "- (A - a) \<le> \<bar>A - a\<bar>" "- (B - b) \<le> \<bar>B - b\<bar>" by simp_all
  then have "A \<le> a + a * u" "a - a * u \<le> A" "a - a * u \<le> B" using assms m by linarith+
  then show ?thesis by (simp add: abs_le_iff min_def)
qed

lemma f32_round_band:
  fixes v :: int
  assumes "0 \<le> v" "v \<le> 255"
  shows "f32_round (of_int v) = of_int v"
    and "0 \<le> f32_round (of_int v / 255) \<and> f32_round (of_int v / 255) \<le> 1"
proof -
  show "f32_round (of_int v) = of_int v"
  proof (cases "v = 0")
    case True
    then show ?thesis by (simp add: f32_round_def fl_round_def)
  next
    case False
    then have "0 < v" "v < 2 ^ 24" using assms by simp_all
    then show ?thesis unfolding f32_round_def by (rule fl_round_of_int)
  qed
  have "0 \<le> (of_int v :: rat) / 255" "(of_int v :: rat) / 255 \<le> 1" using assms by simp_all
  then show "0 \<le> f32_round (of_int v / 255) \<and> f32_round (of_int v / 255) \<le> 1"
    unfolding f32_round_def by (intro fl_round_unit) simp_all
qed

section \<open>Evaluation lemmas\<close>

lemma show_nat_small: "n < 10 \<Longrightarrow> show_nat n = [digit_char n]"
  by (subst show_nat.simps) simp

lemma show_nat_big: "10 \<le> n \<Longrightarrow> show_nat n = show_nat (n div 10) @ [digit_char (n mod 10)]"
  by (subst show_nat.simps) simp

lemma low_digits_numeral:
  "low_digits (numeral k) n = low_digits (pred_numeral k) (n div 10) @ [digit_char (n mod 10)]"
  by (simp only: numeral_eq_Suc [of k] low_digits.simps)

lemma f32_round_seven_tenths: "f32_round (7 / 10) = 11744051 / 16777216"
  using fl_round_eval [of "7 / 10" "- 1" 11744051 24]
  by (simp add: f32_round_def power_int_minus)

lemma f32_round_double_seven_tenths: "f32_round double_seven_tenths = 11744051 / 16777216"
  using fl_round_eval [of "3152519739159347 / 4503599627370496" "- 1" 11744051 24]
  by (simp add: f32_round_def double_seven_tenths_def power_int_minus)

lemma f32_round_half: "f32_round (1 / 2) = 1 / 2"
  using fl_round_eval [of "1 / 2" "- 1" 8388608 24]
  by (simp add: f32_round_def power_int_minus)

lemma f32_round_three_halves: "f32_round (3 / 2) = 3 / 2"
  using fl_round_eval [of "3 / 2" 0 12582912 24]
  by (simp add: f32_round_def power_int_minus)

lemma f64_round_sixty: "f64_round 60 = 60"
  using fl_round_of_int [of 60 53] by (simp add: f64_round_def)

lemma f32_round_sixty: "f32_round 60 = 60"
  using fl_round_of_int [of 60 24] by (simp add: f32_round_def)

lemma f32_round_float32:
  "f32_round (11744051 / 16777216) = 11744051 / 16777216"
  "f32_round (3 / 4) = 3 / 4"
  using fl_round_eval [of "11744051 / 16777216" "- 1" 11744051 24]
    fl_round_eval [of "3 / 4" "- 1" 12582912 24]
  by (simp_all add: f32_round_def power_int_minus)

lemma f64_round_175_32:
  "f64_round (175 / 32) = 175 / 32"
  using fl_round_eval [of "175 / 32" 2 6157265115545600 53]
  by (simp add: f64_round_def power_int_minus)

lemma f64_round_350: "f64_round 350 = 350"
  using fl_round_of_int [of 350 53] by (simp add: f64_round_def)

lemma py_int_350: "py_int 350 = 350"
  by (simp add: py_int_def floor_eq_iff)

lemma f64_round_7_2:
  "f64_round (7 / 2) = 7 / 2"
  using fl_round_eval [of "7 / 2" 1 7881299347898368 53]
  by (simp add: f64_round_def power_int_minus)

lemma f64_round_1_2:
  "f64_round (1 / 2) = 1 / 2"
  using fl_round_eval [of "1 / 2" "- 1" 4503599627370496 53]
  by (simp add: f64_round_def power_int_minus)

lemma f64_round_1: "f64_round 1 = 1"
  using fl_round_of_int [of 1 53] by (simp add: f64_round_def)

lemma f64_round_175: "f64_round 175 = 175"
  using fl_round_of_int [of 175 53] by (simp add: f64_round_def)

lemma py_int_175: "py_int 175 = 175"
  by (simp add: py_int_def floor_eq_iff)

lemma f64_round_7_20:
  "f64_round (7 / 20) = 3152519739159347 / 9007199254740992"
  using fl_round_eval [of "7 / 20" "- 2" 6305039478318694 53]
  by (simp add: f64_round_def power_int_minus)

lemma f64_round_350_3:
  "f64_round (350 / 3) = 8209686820727467 / 70368744177664"
  using fl_round_eval [of "350 / 3" 6 8209686820727466 53]
  by (simp add: f64_round_def power_int_minus)

lemma f64_round_near_350:
  "f64_round (394064967394918375 / 1125899906842624) = 350"
  using fl_round_eval [of "394064967394918375 / 1125899906842624" 8 6157265115545599 53]
  by (simp add: f64_round_def power_int_minus)

lemma f64_round_strip_height:
  "f64_round (9457559217478041 / 9007199254740992) = 1182194902184755 / 1125899906842624"
  using fl_round_eval [of "9457559217478041 / 9007199254740992" 0 4728779608739020 53]
  by (simp add: f64_round_def power_int_minus)

lemma py_int_strip_height: "py_int (1182194902184755 / 1125899906842624) = 1"
  by (simp add: py_int_def floor_eq_iff)

lemma f64_round_double_7_20:
  "f64_round (3152519739159347 / 9007199254740992) = 3152519739159347 / 9007199254740992"
  using fl_round_eval [of "3152519739159347 / 9007199254740992" "- 2" 6305039478318694 53]
  by (simp add: f64_round_def power_int_minus)

lemma py_int_double_7_20: "py_int (3152519739159347 / 9007199254740992) = 0"
  by (simp add: py_int_def floor_eq_iff)

lemma f64_round_14_5:
  "f64_round (14 / 5) = 3152519739159347 / 1125899906842624"
  using fl_round_eval [of "14 / 5" 1 6305039478318694 53]
  by (simp add: f64_round_def power_int_minus)

lemma f64_round_35_9:
  "f64_round (35 / 9) = 8756999275442631 / 2251799813685248"
  using fl_round_eval [of "35 / 9" 1 8756999275442631 53]
  by (simp add: f64_round_def power_int_minus)

lemma f64_round_ninety_rows:
  "f64_round (141863388262170615 / 562949953421312) = 8866461766385663 / 35184372088832"
  using fl_round_eval [of "141863388262170615 / 562949953421312" 7 8866461766385663 53]
  by (simp add: f64_round_def power_int_minus)

lemma py_int_ninety_rows: "py_int (8866461766385663 / 35184372088832) = 251"
  by (simp add: py_int_def floor_eq_iff)

lemma resize_64_64:
  "img_size img = (64, 64) \<Longrightarrow>
   resize_image_aspect_ratio e img (350, 350) = image_resize e img [350, 350] (Some ''LANCZOS'')"
  by (simp add: resize_image_aspect_ratio_def Let_def
      f64_round_175_32 f64_round_350 py_int_350)

lemma resize_100_100:
  "img_size img = (100, 100) \<Longrightarrow>
   resize_image_aspect_ratio e img (350, 350) = image_resize e img [350, 350] (Some ''LANCZOS'')"
  by (simp add: resize_image_aspect_ratio_def Let_def
      f64_round_7_2 f64_round_350 py_int_350)

lemma resize_700_350:
  "img_size img = (700, 350) \<Longrightarrow>
   resize_image_aspect_ratio e img (350, 350) = image_resize e img [350, 175] (Some ''LANCZOS'')"
  by (simp add: resize_image_aspect_ratio_def Let_def
      f64_round_1_2 f64_round_1 f64_round_350 f64_round_175 py_int_350 py_int_175)

lemma resize_1000_3:
  "img_size img = (1000, 3) \<Longrightarrow>
   resize_image_aspect_ratio e img (350, 350) = image_resize e img [350, 1] (Some ''LANCZOS'')"
  by (simp add: resize_image_aspect_ratio_def Let_def
      f64_round_7_20 f64_round_350_3 f64_round_near_350 f64_round_strip_height py_int_350 py_int_strip_height)

lemma resize_1000_1:
  "img_size img = (1000, 1) \<Longrightarrow>
   resize_image_aspect_ratio e img (350, 350) = image_resize e img [350, 0] (Some ''LANCZOS'')"
  by (simp add: resize_image_aspect_ratio_def Let_def
      f64_round_7_20 f64_round_350 f64_round_near_350 f64_round_double_7_20 py_int_350 py_int_double_7_20)

lemma resize_125_90:
  "img_size img = (125, 90) \<Longrightarrow>
   resize_image_aspect_ratio e img (350, 350) = image_resize e img [350, 251] (Some ''LANCZOS'')"
  by (simp add: resize_image_aspect_ratio_def Let_def
      f64_round_14_5 f64_round_35_9 f64_round_near_350 f64_round_ninety_rows py_int_350 py_int_ninety_rows)

lemma format_percent_sixty: "format_percent 2 (3 / 5) = ''60.00%''"
  by (simp add: format_percent_def format_fixed_def round_half_even_def Let_def f64_round_sixty
      show_nat_small show_nat_big low_digits_numeral digit_char_def)

lemmas start_defs = sample_app_def init_def load_config_def load_model_file_def sample_env_def
  resource_path_def path_join_def default_config_def new_app_def create_ui_def logging_def
  show_dialog_def Let_def

lemma sample_app_started:
  "init sample_env [] (Some (JsonConfig c)) = Inr (sample_app (Some (JsonConfig c)))"
  by (simp add: start_defs)

lemma sample_app_config: "config (sample_app (Some (JsonConfig c))) = c"
  by (simp add: start_defs)

lemmas upload_defs = handle_def upload_image_def upload_image_try_def sample_open_def py_min_def
  load_and_display_image_def resize_64_64 resize_100_100 sample_resize_def basename_def

lemmas predict_defs = predict_cancer_def predict_cancer_try_def preprocess_image_def
  img_to_array_def sample_model_def np_argmax_def update_results_def update_metrics_def
  add_to_history_def getitem_def metric_row_def f32_round_sixty f32_round_half

lemma sample_session_labels:
  "result_label (sample_session thr) =
     (if f32_round thr \<le> 3 / 5 then (cancer_text, ''red'') else (no_cancer_text, ''green''))"
  "metrics_tree (sample_session thr) ! 0 = (''Class'', Txt ''Cancerous'')"
  "history_tree (sample_session thr) = [(''2025-01-01 10:00'', ''cell.png'', ''Cancer'', ''60.00%'')]"
  "confidence_scores (sample_session thr) = Some [2 / 5, 3 / 5]"
  "threshold (config (sample_session thr)) = thr"
  unfolding sample_session_def
  by (simp_all add: start_defs upload_defs predict_defs format_percent_sixty)

section \<open>The decision rule\<close>

text \<open>
  C1 (as amended). For a two-element output vector \<open>[p0, p1]\<close> \<^verbatim>\<open>np.argmax\<close> gives index 1
  exactly when \<open>p0 < p1\<close>. With that index \<^verbatim>\<open>update_results\<close> raises nothing and shows
  the positive label (red) exactly when \<open>p0 < p1\<close> and \<open>p1\<close> is at least the threshold as
  NumPy takes it for the comparison with the score, and the negative label (green) in
  every other case. When NumPy takes the configured threshold as it is, equality with
  the threshold counts as positive and anything below as negative.
\<close>

theorem decision_rule:
  "np_argmax [p0, p1] = Inr (if p0 < p1 then 1 else 0) \<and>
   snd (update_results e s (if p0 < p1 then 1 else 0) [p0, p1]) = None \<and>
   (result_label (fst (update_results e s (if p0 < p1 then 1 else 0) [p0, p1]))
      = (cancer_text, ''red'')
      \<longleftrightarrow> p0 < p1 \<and> np_float e (threshold (config s)) \<le> p1) \<and>
   (result_label (fst (update_results e s (if p0 < p1 then 1 else 0) [p0, p1]))
      = (no_cancer_text, ''green'')
      \<longleftrightarrow> \<not> (p0 < p1 \<and> np_float e (threshold (config s)) \<le> p1)) \<and>
   (np_float e (threshold (config s)) = threshold (config s) \<longrightarrow>
      (result_label (fst (update_results e s (if p0 < p1 then 1 else 0) [p0, p1]))
         = (cancer_text, ''red'')
         \<longleftrightarrow> p0 < p1 \<and> threshold (config s) \<le> p1) \<and>
      (result_label (fst (update_results e s (if p0 < p1 then 1 else 0) [p0, p1]))
         = (no_cancer_text, ''green'')
         \<longleftrightarrow> \<not> (p0 < p1 \<and> threshold (config s) \<le> p1)))"
  by (simp add: np_argmax_def update_results_def getitem_def cancer_text_def no_cancer_text_def)

theorem decision_rule_witness:
  "np_argmax float32_scores = Inr 1 \<and>
   np_float sample_env (11744051 / 16777216) = 11744051 / 16777216 \<and>
   result_label (fst (update_results sample_env
      (sample_app (Some (JsonConfig (default_config\<lparr>threshold := 11744051 / 16777216\<rparr>))))
      1 float32_scores))
     = (cancer_text, ''red'') \<and>
   np_float sample_env (3 / 4) = 3 / 4 \<and>
   result_label (fst (update_results sample_env
      (sample_app (Some (JsonConfig (default_config\<lparr>threshold := 3 / 4\<rparr>))))
      1 float32_scores))
     = (no_cancer_text, ''green'')"
  using decision_rule [of "5033165 / 16777216" "11744051 / 16777216" sample_env
      "sample_app (Some (JsonConfig (default_config\<lparr>threshold := 11744051 / 16777216\<rparr>)))"]
    decision_rule [of "5033165 / 16777216" "11744051 / 16777216" sample_env
      "sample_app (Some (JsonConfig (default_config\<lparr>threshold := 3 / 4\<rparr>)))"]
  by (simp add: float32_scores_def sample_app_config sample_env_def f32_round_float32)

text \<open>
  With NumPy 2 the threshold is rounded to float32 before the comparison. The Python
  float nearest to 0.7 is above the float32 nearest to 0.7 and is rounded to it, so a
  score of float32 0.7, which is below the configured threshold, gets the positive
  label.
\<close>

theorem decision_rule_float32_counterexample:
  "threshold (config (sample_app (Some (JsonConfig (default_config\<lparr>threshold := double_seven_tenths\<rparr>)))))
     = double_seven_tenths \<and>
   np_argmax float32_scores = Inr 1 \<and>
   float32_scores ! 1 < double_seven_tenths \<and>
   result_label (fst (update_results sample_env
      (sample_app (Some (JsonConfig (default_config\<lparr>threshold := double_seven_tenths\<rparr>))))
      1 float32_scores))
     = (cancer_text, ''red'')"
  by (simp add: float32_scores_def sample_app_config sample_env_def f32_round_double_seven_tenths
      np_argmax_def update_results_def getitem_def)
    (simp add: double_seven_tenths_def)

section \<open>Configuration\<close>

text \<open>
  C5. With no \<^verbatim>\<open>config.json\<close>, \<^verbatim>\<open>load_config\<close> writes the file with the defaults (model
  path \<^verbatim>\<open>cancer_detection_model.h5\<close>, target size 48 by 48, threshold 0.5) and returns
  them; with a file that parses, it returns what the file holds and leaves the file
  alone.
\<close>

theorem load_config_defaults:
  "load_config None =
     (Some (JsonConfig \<lparr>model_path = ''cancer_detection_model.h5'', target_size = [48, 48],
                        threshold = 1 / 2\<rparr>),
      Inr \<lparr>model_path = ''cancer_detection_model.h5'', target_size = [48, 48],
           threshold = 1 / 2\<rparr>) \<and>
   load_config (Some (JsonConfig c)) = (Some (JsonConfig c), Inr c)"
  by (simp add: load_config_def default_config_def)

section \<open>The labels of the Metrics and History tabs\<close>

text \<open>
  C2 (the claim does not hold of the code). With threshold 0.7 and model output
  (0.4, 0.6) the Results tab shows the negative label, since 0.6 is below the threshold,
  while the Class row of the Metrics tab says Cancerous and the history entry says
  Cancer: \<^verbatim>\<open>update_metrics\<close> and \<^verbatim>\<open>add_to_history\<close> look at the class index only.
\<close>

theorem labels_disagree_below_threshold:
  "threshold (config (sample_session (7 / 10))) = 7 / 10 \<and>
   confidence_scores (sample_session (7 / 10)) = Some [2 / 5, 3 / 5] \<and>
   result_label (sample_session (7 / 10)) = (no_cancer_text, ''green'') \<and>
   metrics_tree (sample_session (7 / 10)) ! 0 = (''Class'', Txt ''Cancerous'') \<and>
   history_tree (sample_session (7 / 10))
     = [(''2025-01-01 10:00'', ''cell.png'', ''Cancer'', ''60.00%'')]"
  by (simp add: sample_session_labels f32_round_seven_tenths)
section \<open>Resizing for display\<close>

lemma close_floor:
  fixes c eps :: rat and k m :: int
  assumes m: "0 < m" and c: "\<bar>c - of_int k / of_int m\<bar> \<le> eps" and e: "eps * of_int m < 1"
  shows "(of_int k / of_int m :: rat) - 1 \<le> of_int \<lfloor>c\<rfloor>"
    and "of_int \<lfloor>c\<rfloor> \<le> (of_int k / of_int m :: rat)"
proof -
  let ?X = "of_int k / of_int m :: rat"
  let ?n = "\<lfloor>c\<rfloor>"
  have mp: "(0::rat) < of_int m" using m by simp
  have f: "of_int ?n \<le> c" "c < of_int ?n + 1" by linarith+
  have "c - ?X \<le> \<bar>c - ?X\<bar>" "- (c - ?X) \<le> \<bar>c - ?X\<bar>" by simp_all
  then have cb: "c \<le> ?X + eps" "?X - eps \<le> c" using c by linarith+
  show "of_int ?n \<le> ?X"
  proof (rule ccontr)
    assume "\<not> of_int ?n \<le> ?X"
    then have "?X < of_int ?n" by simp
    then have "of_int k < (of_int ?n :: rat) * of_int m" using mp by (simp add: pos_divide_less_eq)
    then have "(of_int k :: rat) < of_int (?n * m)" by simp
    then have "k < ?n * m" by (simp only: of_int_less_iff)
    then have "k + 1 \<le> ?n * m" by simp
    then have "(of_int (k + 1) :: rat) \<le> of_int (?n * m)" by (simp only: of_int_le_iff)
    then have "of_int k + 1 \<le> (of_int ?n :: rat) * of_int m" by simp
    also have "\<dots> \<le> (?X + eps) * of_int m"
    proof -
      have "of_int ?n \<le> ?X + eps" using f(1) cb(1) by linarith
      then show ?thesis using mp by (intro mult_right_mono) simp_all
    qed
    also have "\<dots> = of_int k + eps * of_int m" using mp by (simp add: field_simps)
    finally show False using e by simp
  qed
  show "?X - 1 \<le> of_int ?n"
  proof (rule ccontr)
    assume "\<not> ?X - 1 \<le> of_int ?n"
    then have "of_int ?n + 1 < ?X" by simp
    then have "((of_int ?n :: rat) + 1) * of_int m < of_int k" using mp by (simp add: pos_less_divide_eq)
    then have "(of_int ((?n + 1) * m) :: rat) < of_int k" by simp
    then have "(?n + 1) * m < k" by (simp only: of_int_less_iff)
    then have "(?n + 1) * m + 1 \<le> k" by simp
    then have "(of_int ((?n + 1) * m + 1) :: rat) \<le> of_int k" by (simp only: of_int_le_iff)
    then have "((of_int ?n :: rat) + 1) * of_int m + 1 \<le> of_int k" by simp
    moreover have "?X * of_int m = of_int k" using mp by simp
    moreover have "(?X - eps) * of_int m < ((of_int ?n :: rat) + 1) * of_int m"
    proof -
      have "?X - eps < of_int ?n + 1" using f(2) cb(2) by linarith
      then show ?thesis using mp by (intro mult_strict_right_mono) simp_all
    qed
    ultimately have "of_int k - eps * of_int m + 1 < (of_int k :: rat)"
      by (simp add: left_diff_distrib)
    then show False using e by simp
  qed
qed

lemma f64_round_pos:
  assumes "0 < x"
  shows "0 < f64_round x"
proof -
  define u :: rat where "u = 2 powi (- int 53)"
  have u: "u < 1" by (simp add: u_def power_int_minus field_simps)
  have "\<bar>f64_round x - x\<bar> \<le> x * u"
    unfolding f64_round_def u_def by (rule fl_round_error [OF assms])
  moreover have "- (f64_round x - x) \<le> \<bar>f64_round x - x\<bar>" by simp
  ultimately have "x - x * u \<le> f64_round x" by linarith
  moreover have "0 < x * (1 - u)" using assms u by simp
  ultimately show ?thesis by (simp add: right_diff_distrib)
qed

lemma scaled_side:
  fixes s m :: int and ratio :: rat
  defines "u \<equiv> (2::rat) powi (- int 53)"
  assumes s: "0 < s" "s \<le> m" and m: "m < 2 ^ 31"
    and r: "\<bar>ratio - 350 / of_int m\<bar> \<le> 350 / of_int m * u"
  shows "of_int (350 * s) / of_int m - 1 \<le> (of_int \<lfloor>f64_round (of_int s * ratio)\<rfloor> :: rat)"
    and "(of_int \<lfloor>f64_round (of_int s * ratio)\<rfloor> :: rat) \<le> of_int (350 * s) / of_int m"
    and "0 \<le> f64_round (of_int s * ratio)"
proof -
  let ?R = "350 / of_int m :: rat"
  let ?s = "of_int s :: rat"
  have mp: "(0::rat) < of_int m" and sp: "0 < ?s" and sm: "?s \<le> of_int m" using s by simp_all
  have u: "0 < u" "u < 1" by (simp_all add: u_def power_int_minus field_simps)
  have uval: "u = 1 / 2 ^ 53" by (simp add: u_def power_int_minus field_simps)
  have R: "0 < ?R" using mp by simp
  have "ratio - ?R \<le> \<bar>ratio - ?R\<bar>" "- (ratio - ?R) \<le> \<bar>ratio - ?R\<bar>" by simp_all
  then have "?R - ?R * u \<le> ratio" "ratio \<le> ?R + ?R * u" using r by linarith+
  then have rb: "?R * (1 - u) \<le> ratio" "ratio \<le> ?R * (1 + u)"
    by (simp_all add: right_diff_distrib distrib_left)
  have rp: "0 < ratio"
  proof -
    have "0 < ?R * (1 - u)" using R u by simp
    then show ?thesis using rb(1) by linarith
  qed
  define x where "x = ?s * ratio"
  define c where "c = f64_round x"
  have xp: "0 < x" using sp rp by (simp add: x_def)
  have sR: "?s * ?R \<le> 350" using sm mp sp by (simp add: pos_divide_le_eq mult.commute)
  have sRp: "0 \<le> ?s * ?R" using sp R by simp
  have xb: "?s * ?R * (1 - u) \<le> x" "x \<le> ?s * ?R * (1 + u)"
  proof -
    have "?s * (?R * (1 - u)) \<le> ?s * ratio" using rb(1) sp by (intro mult_left_mono) simp_all
    then show "?s * ?R * (1 - u) \<le> x" by (simp add: x_def mult.assoc)
    have "?s * ratio \<le> ?s * (?R * (1 + u))" using rb(2) sp by (intro mult_left_mono) simp_all
    then show "x \<le> ?s * ?R * (1 + u)" by (simp add: x_def mult.assoc)
  qed
  have ce: "\<bar>c - x\<bar> \<le> x * u"
    unfolding c_def f64_round_def u_def by (rule fl_round_error [OF xp])
  have xu: "x * u \<le> ?s * ?R * (1 + u) * u" using xb(2) u by (intro mult_right_mono) simp_all
  have "c - x \<le> \<bar>c - x\<bar>" "- (c - x) \<le> \<bar>c - x\<bar>" by simp_all
  then have cx: "c \<le> x + x * u" "x - x * u \<le> c" using ce by linarith+
  have xs: "?s * ?R - ?s * ?R * u \<le> x" "x \<le> ?s * ?R + ?s * ?R * u"
    using xb by (simp_all add: right_diff_distrib distrib_left)
  define A where "A = ?s * ?R"
  define B where "B = A * u"
  define C where "C = A * (1 + u) * u"
  define D where "D = x * u"
  have "c \<le> x + D" "x - D \<le> c" "A - B \<le> x" "x \<le> A + B" "D \<le> C"
    using cx xs xu by (simp_all add: A_def B_def C_def D_def)
  then have "c - A \<le> C + B" "- (c - A) \<le> C + B" by linarith+
  then have "\<bar>c - A\<bar> \<le> C + B" by (simp only: abs_le_iff)
  also have "C + B = A * (u * (2 + u))" by (simp add: B_def C_def algebra_simps)
  also have "\<dots> \<le> 350 * (u * (2 + u))"
    using sR u unfolding A_def [symmetric] by (intro mult_right_mono) simp_all
  finally have "\<bar>c - ?s * ?R\<bar> \<le> 350 * (u * (2 + u))" by (simp only: A_def)
  moreover have "?s * ?R = of_int (350 * s) / of_int m" by simp
  ultimately have close: "\<bar>c - of_int (350 * s) / of_int m\<bar> \<le> 350 * (u * (2 + u))"
    by (simp only:)
  have "(of_int m :: rat) \<le> of_int (2 ^ 31)" using m by (simp only: of_int_le_iff)
  then have "350 * (u * (2 + u)) * of_int m \<le> 350 * (u * (2 + u)) * 2 ^ 31"
    using u by (intro mult_left_mono) simp_all
  also have "\<dots> < 1" by (simp add: uval)
  finally have small: "350 * (u * (2 + u)) * of_int m < 1" .
  have mpos: "0 < m" using s by simp
  note cf = close_floor [OF mpos close small]
  show "of_int (350 * s) / of_int m - 1 \<le> (of_int \<lfloor>f64_round (of_int s * ratio)\<rfloor> :: rat)"
    using cf(1) by (simp add: c_def x_def)
  show "(of_int \<lfloor>f64_round (of_int s * ratio)\<rfloor> :: rat) \<le> of_int (350 * s) / of_int m"
    using cf(2) by (simp add: c_def x_def)
  show "0 \<le> f64_round (of_int s * ratio)"
    using f64_round_pos [OF xp] by (simp add: x_def)
qed

lemma scaled_int:
  fixes n s m :: int
  assumes m: "0 < m"
    and lo: "of_int (350 * s) / of_int m - 1 \<le> (of_int n :: rat)"
    and hi: "(of_int n :: rat) \<le> of_int (350 * s) / of_int m"
  shows "n * m \<le> 350 * s" "350 * s - m \<le> n * m"
proof -
  have mp: "(0::rat) < of_int m" using m by simp
  have "(of_int n :: rat) * of_int m \<le> of_int (350 * s)"
    using hi mp by (simp add: pos_le_divide_eq)
  then have "(of_int (n * m) :: rat) \<le> of_int (350 * s)" by simp
  then show "n * m \<le> 350 * s" by (simp only: of_int_le_iff)
  have "of_int (350 * s) / of_int m \<le> (of_int n :: rat) + 1" using lo by linarith
  then have "(of_int (350 * s) :: rat) \<le> (of_int n + 1) * of_int m"
    using mp by (simp add: pos_divide_le_eq)
  then have "(of_int (350 * s) :: rat) \<le> of_int (n * m + m)" by (simp add: algebra_simps)
  then have "350 * s \<le> n * m + m" by (simp only: of_int_le_iff)
  then show "350 * s - m \<le> n * m" by simp
qed

lemma scaled_pair:
  fixes a b w h m :: int
  assumes m: "0 < m" and w: "0 < w" "w \<le> m" and h: "0 < h" "h \<le> m"
    and a: "a * m \<le> 350 * w" "350 * w - m \<le> a * m"
    and b: "b * m \<le> 350 * h" "350 * h - m \<le> b * m"
  shows "a \<le> 350" "b \<le> 350" "\<bar>a * h - b * w\<bar> \<le> m"
proof -
  have "a * m \<le> 350 * m" using a(1) w by linarith
  then show "a \<le> 350" using m by simp
  have "b * m \<le> 350 * m" using b(1) h by linarith
  then show "b \<le> 350" using m by simp
  have 1: "a * m * h \<le> 350 * w * h" using a(1) h by (intro mult_right_mono) simp_all
  have 2: "(350 * h - m) * w \<le> b * m * w" using b(2) w by (intro mult_right_mono) simp_all
  have 3: "b * m * w \<le> 350 * h * w" using b(1) w by (intro mult_right_mono) simp_all
  have 4: "(350 * w - m) * h \<le> a * m * h" using a(2) h by (intro mult_right_mono) simp_all
  have "m * (a * h - b * w) = a * m * h - b * m * w" by (simp add: algebra_simps)
  also have "\<dots> \<le> 350 * w * h - (350 * h - m) * w" using 1 2 by linarith
  also have "\<dots> = m * w" by (simp add: algebra_simps)
  also have "\<dots> \<le> m * m" using w m by (intro mult_left_mono) simp_all
  finally have u: "a * h - b * w \<le> m" using m by simp
  have "m * (b * w - a * h) = b * m * w - a * m * h" by (simp add: algebra_simps)
  also have "\<dots> \<le> 350 * h * w - (350 * w - m) * h" using 3 4 by linarith
  also have "\<dots> = m * h" by (simp add: algebra_simps)
  also have "\<dots> \<le> m * m" using h m by (intro mult_left_mono) simp_all
  finally have l: "b * w - a * h \<le> m" using m by simp
  show "\<bar>a * h - b * w\<bar> \<le> m" using u l by linarith
qed

lemma ratio_close:
  fixes w h :: int
  assumes w: "0 < w" and h: "0 < h"
  shows "\<bar>min (f64_round (350 / of_int w)) (f64_round (350 / of_int h)) - 350 / of_int (max w h)\<bar>
         \<le> 350 / of_int (max w h) * 2 powi (- int 53)"
proof -
  define u :: rat where "u = 2 powi (- int 53)"
  have u: "0 \<le> u" "u \<le> 1" by (simp_all add: u_def power_int_minus field_simps)
  have wp: "(0::rat) < 350 / of_int w" and hp: "(0::rat) < 350 / of_int h" using w h by simp_all
  have ew: "\<bar>f64_round (350 / of_int w) - 350 / of_int w\<bar> \<le> 350 / of_int w * u"
    unfolding f64_round_def u_def by (rule fl_round_error [OF wp])
  have eh: "\<bar>f64_round (350 / of_int h) - 350 / of_int h\<bar> \<le> 350 / of_int h * u"
    unfolding f64_round_def u_def by (rule fl_round_error [OF hp])
  show ?thesis
  proof (cases "w \<le> h")
    case True
    then have le: "(350::rat) / of_int h \<le> 350 / of_int w"
      using w h by (simp add: frac_le)
    have "max w h = h" using True by simp
    then show ?thesis
      using min_ratio [OF hp le u eh ew] by (simp add: u_def min.commute)
  next
    case False
    then have le: "(350::rat) / of_int w \<le> 350 / of_int h"
      using w h by (simp add: frac_le)
    have "max w h = w" using False by simp
    then show ?thesis
      using min_ratio [OF wp le u ew eh] by (simp add: u_def)
  qed
qed

text \<open>
  C3 (as amended). For an image of positive width \<open>w\<close> and height \<open>h\<close>, both below
  \<open>2 ^ 31\<close> as PIL keeps them, and the box 350 by 350, \<^verbatim>\<open>resize_image_aspect_ratio\<close>
  returns what \<^verbatim>\<open>img.resize\<close> gives for the size \<open>(int (w * r), int (h * r))\<close> with
  \<open>r = min (350 / w) (350 / h)\<close>, the quotients and the products being those of Python
  floats. Each side is the exact scaled side \<open>350 * w / max w h\<close> or \<open>350 * h / max w h\<close>
  less a part below or equal to one, so both lie between 0 and 350, and the aspect ratio
  is kept up to that: \<open>nw * h\<close> and \<open>nh * w\<close> differ by at most \<open>max w h\<close>.
\<close>

theorem resize_fits_box:
  assumes "img_size img = (w, h)" and "0 < w" and "0 < h" and "w < 2 ^ 31" and "h < 2 ^ 31"
  shows "\<exists>nw nh ratio.
           resize_image_aspect_ratio e img (350, 350)
             = image_resize e img [nw, nh] (Some ''LANCZOS'') \<and>
           ratio = min (f64_round (350 / of_int w)) (f64_round (350 / of_int h)) \<and>
           nw = py_int (f64_round (of_int w * ratio)) \<and>
           nh = py_int (f64_round (of_int h * ratio)) \<and>
           nw * max w h \<le> 350 * w \<and> 350 * w - max w h \<le> nw * max w h \<and>
           nh * max w h \<le> 350 * h \<and> 350 * h - max w h \<le> nh * max w h \<and>
           0 \<le> nw \<and> nw \<le> 350 \<and> 0 \<le> nh \<and> nh \<le> 350 \<and>
           \<bar>nw * h - nh * w\<bar> \<le> max w h"
proof -
  define m where "m = max w h"
  define ratio where "ratio = min (f64_round (350 / of_int w)) (f64_round (350 / of_int h))"
  define nw where "nw = py_int (f64_round (of_int w * ratio))"
  define nh where "nh = py_int (f64_round (of_int h * ratio))"
  have m: "0 < m" "w \<le> m" "h \<le> m" "m < 2 ^ 31" using assms by (simp_all add: m_def)
  have r: "\<bar>ratio - 350 / of_int m\<bar> \<le> 350 / of_int m * 2 powi (- int 53)"
    unfolding ratio_def m_def by (rule ratio_close [OF assms(2,3)])
  note sw = scaled_side [OF assms(2) m(2) m(4) r]
  note sh = scaled_side [OF assms(3) m(3) m(4) r]
  have pw: "nw = \<lfloor>f64_round (of_int w * ratio)\<rfloor>" using sw(3) by (simp add: nw_def py_int_def)
  have ph: "nh = \<lfloor>f64_round (of_int h * ratio)\<rfloor>" using sh(3) by (simp add: nh_def py_int_def)
  have w0: "0 \<le> nw" using sw(3) by (simp add: pw)
  have h0: "0 \<le> nh" using sh(3) by (simp add: ph)
  note iw = scaled_int [OF m(1) sw(1,2), folded pw]
  note ih = scaled_int [OF m(1) sh(1,2), folded ph]
  note p = scaled_pair [OF m(1) assms(2) m(2) assms(3) m(3) iw ih]
  have "resize_image_aspect_ratio e img (350, 350)
        = image_resize e img [nw, nh] (Some ''LANCZOS'')"
    using assms(1-3) by (simp add: resize_image_aspect_ratio_def Let_def nw_def nh_def ratio_def)
  then show ?thesis
    using iw ih w0 h0 p unfolding m_def nw_def nh_def ratio_def by blast
qed

theorem resize_fits_box_witness:
  "(\<exists>img'. resize_image_aspect_ratio sample_env
      \<lparr>img_mode = ''RGB'', img_size = (700, 350), img_data = Inr []\<rparr> (350, 350) = Inr img' \<and>
     img_size img' = (350, 175)) \<and>
   (\<exists>img'. resize_image_aspect_ratio sample_env
      \<lparr>img_mode = ''RGB'', img_size = (125, 90), img_data = Inr []\<rparr> (350, 350) = Inr img' \<and>
     img_size img' = (350, 251)) \<and>
   \<bar>(350 :: int) * 90 - 251 * 125\<bar> = max 125 90"
proof -
  let ?a = "\<lparr>img_mode = ''RGB'', img_size = (700, 350), img_data = Inr []\<rparr>"
  let ?b = "\<lparr>img_mode = ''RGB'', img_size = (125, 90), img_data = Inr []\<rparr>"
  have a: "resize_image_aspect_ratio sample_env ?a (350, 350)
      = Inr \<lparr>img_mode = ''RGB'', img_size = (350, 175),
             img_data = Inr (sample_pixels True [] (700, 350) (350, 175))\<rparr>"
    by (simp add: resize_700_350 sample_env_def sample_resize_def)
  have b: "resize_image_aspect_ratio sample_env ?b (350, 350)
      = Inr \<lparr>img_mode = ''RGB'', img_size = (350, 251),
             img_data = Inr (sample_pixels True [] (125, 90) (350, 251))\<rparr>"
    by (simp add: resize_125_90 sample_env_def sample_resize_def)
  have "\<exists>nw nh. resize_image_aspect_ratio sample_env ?a (350, 350)
            = image_resize sample_env ?a [nw, nh] (Some ''LANCZOS'') \<and> nw \<le> 350 \<and> nh \<le> 350"
    using resize_fits_box [of ?a 700 350 sample_env] by auto
  moreover have "\<exists>nw nh. resize_image_aspect_ratio sample_env ?b (350, 350)
            = image_resize sample_env ?b [nw, nh] (Some ''LANCZOS'') \<and> nw \<le> 350 \<and> nh \<le> 350"
    using resize_fits_box [of ?b 125 90 sample_env] by auto
  ultimately show ?thesis unfolding a b by simp
qed

text \<open>
  The aspect ratio is not kept exactly, and a side can come out as 0, which
  \<^verbatim>\<open>img.resize\<close> refuses: an image of 1000 by 3 pixels becomes one of 350 by 1, and for
  an image of 1000 by 1 pixels the size asked for is 350 by 0 and no image is returned.
\<close>

theorem resize_ratio_counterexample:
  "(\<exists>img img'. sample_open ''/data/strip.png'' = Inr img \<and> img_size img = (1000, 3) \<and>
      resize_image_aspect_ratio sample_env img (350, 350) = Inr img' \<and>
      img_size img' = (350, 1) \<and> (350 :: int) * 3 \<noteq> 1 * 1000) \<and>
   resize_image_aspect_ratio sample_env
       \<lparr>img_mode = ''RGB'', img_size = (1000, 1),
          img_data = Inr [replicate 1000 [200, 30, 90]]\<rparr> (350, 350)
     = image_resize sample_env
         \<lparr>img_mode = ''RGB'', img_size = (1000, 1),
            img_data = Inr [replicate 1000 [200, 30, 90]]\<rparr> [350, 0] (Some ''LANCZOS'') \<and>
   resize_image_aspect_ratio sample_env
       \<lparr>img_mode = ''RGB'', img_size = (1000, 1),
          img_data = Inr [replicate 1000 [200, 30, 90]]\<rparr> (350, 350)
     = Inl (Exn ValueError ''height and width must be > 0'')"
  by (simp add: sample_open_def resize_1000_3 resize_1000_1 sample_env_def sample_resize_def)

section \<open>History export\<close>









section \<open>What the methods leave alone\<close>

lemma update_results_frame:
  "update_results e s ci sc = (s', x) \<Longrightarrow>
   config s' = config s \<and> image_path s' = image_path s \<and> predict_button s' = predict_button s \<and>
   image_label s' = image_label s \<and> model_loaded s' = model_loaded s \<and>
   history_tree s' = history_tree s"
  by (auto simp: update_results_def Let_def split: sum.splits if_splits)

lemma update_metrics_frame:
  "update_metrics s ci sc = (s', x) \<Longrightarrow>
   config s' = config s \<and> image_path s' = image_path s \<and> predict_button s' = predict_button s \<and>
   image_label s' = image_label s \<and> model_loaded s' = model_loaded s \<and>
   history_tree s' = history_tree s"
  by (auto simp: update_metrics_def Let_def split: prod.splits if_splits)

lemma add_to_history_frame:
  "add_to_history d s ci sc = (s', x) \<Longrightarrow>
   config s' = config s \<and> image_path s' = image_path s \<and> predict_button s' = predict_button s \<and>
   image_label s' = image_label s \<and> model_loaded s' = model_loaded s"
  by (auto simp: add_to_history_def Let_def split: option.splits sum.splits)

lemma predict_cancer_try_frame:
  assumes "predict_cancer_try e d p s = (s', x)"
  shows "config s' = config s \<and> image_path s' = image_path s \<and>
         predict_button s' = predict_button s \<and> image_label s' = image_label s \<and>
         model_loaded s' = model_loaded s"
  using assms
  by (auto simp: predict_cancer_try_def Let_def logging_def split: sum.splits prod.splits option.splits
      dest!: update_results_frame update_metrics_frame add_to_history_frame)

lemma predict_cancer_frame:
  assumes "predict_cancer e d s = (s', x)"
  shows "config s' = config s \<and> image_path s' = image_path s \<and>
         predict_button s' = predict_button s \<and> image_label s' = image_label s \<and>
         model_loaded s' = model_loaded s \<and> x = None"
  using assms
  by (auto simp: predict_cancer_def show_dialog_def logging_def
      split: if_splits option.splits prod.splits dest!: predict_cancer_try_frame)

lemma load_and_display_image_frame:
  assumes "load_and_display_image e fp s = (s', x)"
  shows "config s' = config s \<and> image_path s' = image_path s \<and>
         predict_button s' = predict_button s \<and> model_loaded s' = model_loaded s \<and>
         (x = None \<longrightarrow> image_label s' \<noteq> None) \<and> (x \<noteq> None \<longrightarrow> image_label s' = image_label s)"
  using assms
  by (auto simp: load_and_display_image_def Let_def split: sum.splits)

lemma upload_image_try_frame:
  assumes "upload_image_try e fp s = (s', x)"
  shows "config s' = config s \<and> model_loaded s' = model_loaded s \<and>
         (predict_button s' = predict_button s \<and> image_label s' = image_label s \<and>
            (image_path s' = image_path s \<or> image_path s' = Some fp)
          \<or> predict_button s' = Normal \<and> image_label s' \<noteq> None \<and> image_path s' = Some fp \<and> x = None)"
  using assms
  by (auto simp: upload_image_try_def show_dialog_def logging_def
      split: sum.splits prod.splits option.splits if_splits dest!: load_and_display_image_frame)

lemma upload_image_frame:
  assumes "upload_image e fp s = (s', x)"
  shows "x = None \<and> config s' = config s \<and> model_loaded s' = model_loaded s \<and>
         (predict_button s' = predict_button s \<and> image_label s' = image_label s \<and>
            (image_path s' = image_path s \<or> fp \<noteq> [] \<and> image_path s' = Some fp)
          \<or> predict_button s' = Normal \<and> image_label s' \<noteq> None \<and> fp \<noteq> [] \<and> image_path s' = Some fp)"
  using assms
  by (auto simp: upload_image_def show_dialog_def logging_def
      split: if_splits prod.splits option.splits dest!: upload_image_try_frame)

lemma export_history_frame:
  "export_history e fp s = (s', x) \<Longrightarrow>
   x = None \<and> config s' = config s \<and> image_path s' = image_path s \<and>
   predict_button s' = predict_button s \<and> image_label s' = image_label s \<and>
   model_loaded s' = model_loaded s"
  by (auto simp: export_history_def show_dialog_def logging_def split: if_splits option.splits)

lemma clear_history_frame:
  "clear_history s = (s', x) \<Longrightarrow>
   x = None \<and> config s' = config s \<and> image_path s' = image_path s \<and>
   predict_button s' = predict_button s \<and> image_label s' = image_label s \<and>
   model_loaded s' = model_loaded s"
  by (auto simp: clear_history_def logging_def)

section \<open>Events\<close>

lemma handle_frame:
  "config (handle e ev s) = config s \<and> model_loaded (handle e ev s) = model_loaded s \<and>
   (predict_button (handle e ev s) = Normal \<longrightarrow>
      predict_button s = Normal \<and> image_label (handle e ev s) = image_label s \<and>
        (image_path (handle e ev s) = image_path s \<or>
         (\<exists>fp. fp \<noteq> [] \<and> image_path (handle e ev s) = Some fp))
      \<or> image_label (handle e ev s) \<noteq> None \<and>
        (\<exists>fp. fp \<noteq> [] \<and> image_path (handle e ev s) = Some fp))"
proof (cases ev)
  case (UploadClick fp)
  obtain s' x where u: "upload_image e fp s = (s', x)" by (cases "upload_image e fp s")
  show ?thesis using upload_image_frame [OF u] u UploadClick by (auto simp: handle_def)
next
  case (PredictClick d)
  obtain s' x where u: "predict_cancer e d s = (s', x)" by (cases "predict_cancer e d s")
  show ?thesis using predict_cancer_frame [OF u] u PredictClick by (auto simp: handle_def)
next
  case ClearHistoryClick
  obtain s' x where u: "clear_history s = (s', x)" by (cases "clear_history s")
  show ?thesis using clear_history_frame [OF u] u ClearHistoryClick by (auto simp: handle_def)
next
  case (ExportHistoryClick fp)
  obtain s' x where u: "export_history e fp s = (s', x)" by (cases "export_history e fp s")
  show ?thesis using export_history_frame [OF u] u ExportHistoryClick by (auto simp: handle_def)
qed

lemma run_config: "config (run e evs s) = config s"
  by (induction evs arbitrary: s) (simp_all add: handle_frame)

lemma handle_image_shown: "image_shown s \<Longrightarrow> image_shown (handle e ev s)"
  using handle_frame [of e ev s] widget_state.exhaust [of "predict_button (handle e ev s)"]
  unfolding image_shown_def by (metis widget_state.distinct(1))

lemma run_image_shown: "image_shown s \<Longrightarrow> image_shown (run e evs s)"
  by (induction evs arbitrary: s) (simp_all add: handle_image_shown)

lemma init_config:
  assumes "init e choice cf = Inr s0"
  shows "predict_button s0 = Disabled \<and> image_path s0 = None \<and>
         (cf = None \<longrightarrow> threshold (config s0) = 1 / 2) \<and>
         (\<forall>c. cf = Some (JsonConfig c) \<longrightarrow> threshold (config s0) = threshold c) \<and>
         cf \<noteq> Some NotJson"
  using assms
  by (auto simp: init_def load_config_def load_model_file_def new_app_def create_ui_def
      default_config_def logging_def show_dialog_def Let_def
      split: option.splits file_content.splits sum.splits prod.splits if_splits)

section \<open>The threshold\<close>

lemma sample_app_started_default: "init sample_env [] None = Inr (sample_app None)"
  by (simp add: start_defs)

text \<open>
  C7 (as amended). In every state reached from the start by any events, the threshold
  the decision reads is the one \<^verbatim>\<open>load_config\<close> returned: 0.5, which lies in [0, 1],
  when the configuration was created from the defaults, and the value of the file,
  whatever it is, when a configuration file existed. It lies in [0, 1] exactly when the
  file was absent or held a value in [0, 1]: nothing checks it and nothing changes it.
\<close>

theorem threshold_as_loaded:
  assumes "init e choice cf = Inr s0"
  shows "(cf = None \<longrightarrow> threshold (config (run e evs s0)) = 1 / 2) \<and>
         (\<forall>c. cf = Some (JsonConfig c) \<longrightarrow> threshold (config (run e evs s0)) = threshold c) \<and>
         ((0 \<le> threshold (config (run e evs s0)) \<and> threshold (config (run e evs s0)) \<le> 1)
            \<longleftrightarrow> (cf = None \<or>
                 (\<exists>c. cf = Some (JsonConfig c) \<and> 0 \<le> threshold c \<and> threshold c \<le> 1)))"
proof -
  note i = init_config [OF assms]
  show ?thesis
  proof (cases cf)
    case None
    then show ?thesis using i by (simp add: run_config)
  next
    case (Some fc)
    then obtain c where "fc = JsonConfig c" using i by (cases fc) auto
    then show ?thesis using i Some by (simp add: run_config)
  qed
qed

theorem threshold_as_loaded_witness:
  "threshold (config (run sample_env
      [UploadClick ''/data/cell.png'', PredictClick ''2025-01-01 10:00''] (sample_app None)))
     = 1 / 2 \<and>
   threshold (config (run sample_env
      [UploadClick ''/data/cell.png'', PredictClick ''2025-01-01 10:00'']
      (sample_app (Some (JsonConfig (default_config\<lparr>threshold := 3 / 10\<rparr>)))))) = 3 / 10"
  using threshold_as_loaded [OF sample_app_started_default,
      of "[UploadClick ''/data/cell.png'', PredictClick ''2025-01-01 10:00'']"]
    threshold_as_loaded [OF sample_app_started [of "default_config\<lparr>threshold := 3 / 10\<rparr>"],
      of "[UploadClick ''/data/cell.png'', PredictClick ''2025-01-01 10:00'']"]
  by simp

text \<open>
  A configuration file with threshold 1.5 is taken as it is, and the decision then
  uses 1.5.
\<close>

theorem threshold_out_of_range_counterexample:
  "init sample_env [] (Some (JsonConfig (default_config\<lparr>threshold := 3 / 2\<rparr>)))
     = Inr (sample_app (Some (JsonConfig (default_config\<lparr>threshold := 3 / 2\<rparr>)))) \<and>
   sample_session (3 / 2)
     = run sample_env [UploadClick ''/data/cell.png'', PredictClick ''2025-01-01 10:00'']
         (sample_app (Some (JsonConfig (default_config\<lparr>threshold := 3 / 2\<rparr>)))) \<and>
   threshold (config (sample_session (3 / 2))) = 3 / 2 \<and>
   \<not> (0 \<le> threshold (config (sample_session (3 / 2))) \<and>
      threshold (config (sample_session (3 / 2))) \<le> 1) \<and>
   result_label (sample_session (3 / 2)) = (no_cancer_text, ''green'')"
  by (simp add: sample_app_started sample_session_labels f32_round_three_halves)
    (simp add: sample_session_def)

section \<open>The prediction button\<close>

lemma enabling_step:
  assumes "predict_button s = Disabled" and "predict_button (handle e ev s) = Normal"
  shows "\<exists>fp img m. ev = UploadClick fp \<and> fp \<noteq> [] \<and> image_open e fp = Inr img \<and>
           py_min (target_size (config s)) = Inr m \<and>
           m \<le> fst (img_size img) \<and> m \<le> snd (img_size img) \<and>
           snd (load_and_display_image e fp (s\<lparr>image_path := Some fp\<rparr>)) = None \<and>
           image_path (handle e ev s) = Some fp"
proof (cases ev)
  case (UploadClick fp)
  show ?thesis
    using assms UploadClick
    by (auto simp: handle_def upload_image_def upload_image_try_def show_dialog_def logging_def
        split: if_splits sum.splits prod.splits option.splits
        dest!: load_and_display_image_frame)
next
  case (PredictClick d)
  obtain s' x where u: "predict_cancer e d s = (s', x)" by (cases "predict_cancer e d s")
  show ?thesis using predict_cancer_frame [OF u] u PredictClick assms by (auto simp: handle_def)
next
  case ClearHistoryClick
  then show ?thesis using assms by (auto simp: handle_def clear_history_def logging_def)
next
  case (ExportHistoryClick fp)
  obtain s' x where u: "export_history e fp s = (s', x)" by (cases "export_history e fp s")
  show ?thesis using export_history_frame [OF u] u ExportHistoryClick assms by (auto simp: handle_def)
qed

lemma predict_cancer_guard:
  "\<not> model_loaded s \<Longrightarrow>
     predict_cancer e d s
       = (show_dialog (ShowError ''Error'' ''Model not loaded. Cannot make prediction.'') s, None)"
  "model_loaded s \<Longrightarrow> image_path s = None \<or> image_path s = Some [] \<Longrightarrow>
     predict_cancer e d s = (show_dialog (ShowError ''Error'' ''No image selected.'') s, None)"
  by (auto simp: predict_cancer_def)

text \<open>
  C8. The application starts with the prediction button disabled and no image selected.
  After any events, an enabled button means an image is on display and a path is
  selected. The only step that enables the button is an upload whose file was chosen,
  opened, found large enough and displayed without an exception. \<^verbatim>\<open>predict_cancer\<close>
  itself returns with an error dialog, the object otherwise unchanged, when the model is
  not loaded or no image is selected.
\<close>

theorem predict_button_gated:
  assumes "init e choice cf = Inr s0"
  shows "predict_button s0 = Disabled \<and> image_path s0 = None \<and>
    (predict_button (run e evs s0) = Normal \<longrightarrow>
       image_label (run e evs s0) \<noteq> None \<and>
       (\<exists>p. p \<noteq> [] \<and> image_path (run e evs s0) = Some p)) \<and>
    (\<forall>s ev. predict_button s = Disabled \<and> predict_button (handle e ev s) = Normal \<longrightarrow>
       (\<exists>fp img m. ev = UploadClick fp \<and> fp \<noteq> [] \<and> image_open e fp = Inr img \<and>
          py_min (target_size (config s)) = Inr m \<and>
          m \<le> fst (img_size img) \<and> m \<le> snd (img_size img) \<and>
          snd (load_and_display_image e fp (s\<lparr>image_path := Some fp\<rparr>)) = None \<and>
          image_path (handle e ev s) = Some fp)) \<and>
    (\<forall>s d. \<not> model_loaded s \<longrightarrow>
       predict_cancer e d s
         = (show_dialog (ShowError ''Error'' ''Model not loaded. Cannot make prediction.'') s,
            None)) \<and>
    (\<forall>s d. model_loaded s \<and> (image_path s = None \<or> image_path s = Some []) \<longrightarrow>
       predict_cancer e d s = (show_dialog (ShowError ''Error'' ''No image selected.'') s, None))"
proof -
  have i: "predict_button s0 = Disabled" "image_path s0 = None"
    using init_config [OF assms] by simp_all
  have "image_shown s0" using i by (simp add: image_shown_def)
  then have "image_shown (run e evs s0)" by (rule run_image_shown)
  then have r: "predict_button (run e evs s0) = Normal \<longrightarrow>
       image_label (run e evs s0) \<noteq> None \<and>
       (\<exists>p. p \<noteq> [] \<and> image_path (run e evs s0) = Some p)"
    by (auto simp: image_shown_def)
  show ?thesis using i r enabling_step predict_cancer_guard by blast
qed

lemma sample_upload:
  "predict_button (handle sample_env (UploadClick ''/data/cell.png'') (sample_app None)) = Normal"
  "image_path (handle sample_env (UploadClick ''/data/cell.png'') (sample_app None))
     = Some ''/data/cell.png''"
  "predict_button (sample_app None) = Disabled"
  "image_path (sample_app None) = None"
  "model_loaded (sample_app None)"
  by (simp_all add: start_defs upload_defs)

theorem predict_button_gated_witness:
  "predict_button (sample_app None) = Disabled \<and>
   predict_button (run sample_env [UploadClick ''/data/cell.png''] (sample_app None)) = Normal \<and>
   image_label (run sample_env [UploadClick ''/data/cell.png''] (sample_app None)) \<noteq> None \<and>
   image_path (run sample_env [UploadClick ''/data/cell.png''] (sample_app None))
     = Some ''/data/cell.png'' \<and>
   predict_cancer sample_env ''2025-01-01 10:00'' (sample_app None)
     = (show_dialog (ShowError ''Error'' ''No image selected.'') (sample_app None), None) \<and>
   predict_cancer sample_env ''2025-01-01 10:00'' ((sample_app None)\<lparr>model_loaded := False\<rparr>)
     = (show_dialog (ShowError ''Error'' ''Model not loaded. Cannot make prediction.'')
          ((sample_app None)\<lparr>model_loaded := False\<rparr>), None)"
  using predict_button_gated [OF sample_app_started_default, of "[UploadClick ''/data/cell.png'']"]
    sample_upload
  by auto

section \<open>Uploading an image\<close>

text \<open>
  C10 (as amended). For a chosen file that opens and a non-empty target size with
  minimum \<open>m\<close>: when the width or the height is below \<open>m\<close>, \<^verbatim>\<open>upload_image\<close> shows
  the warning and returns with the path, the displayed image and the button as they
  were. Otherwise the path is set to the chosen file; the button is enabled and the
  image displayed when \<^verbatim>\<open>load_and_display_image\<close> raises nothing, and when it raises, the
  error is shown and logged and the button and the displayed image stay as they were.
\<close>

theorem upload_image_size_gate:
  assumes "file_path \<noteq> []" and "image_open e file_path = Inr img"
    and "py_min (target_size (config s)) = Inr m"
  shows
    "(fst (img_size img) < m \<or> snd (img_size img) < m \<longrightarrow>
        upload_image e file_path s
          = (show_dialog (ShowWarning ''Warning''
               (''Image must be at least '' @ show_int m @ ''x'' @ show_int m @ '' pixels.'')) s,
             None) \<and>
        image_path (fst (upload_image e file_path s)) = image_path s \<and>
        image_label (fst (upload_image e file_path s)) = image_label s \<and>
        predict_button (fst (upload_image e file_path s)) = predict_button s) \<and>
     (m \<le> fst (img_size img) \<and> m \<le> snd (img_size img) \<longrightarrow>
        image_path (fst (upload_image e file_path s)) = Some file_path \<and>
        (snd (load_and_display_image e file_path (s\<lparr>image_path := Some file_path\<rparr>)) = None \<longrightarrow>
           predict_button (fst (upload_image e file_path s)) = Normal \<and>
           image_label (fst (upload_image e file_path s)) \<noteq> None) \<and>
        (\<forall>s1 x. load_and_display_image e file_path (s\<lparr>image_path := Some file_path\<rparr>)
                  = (s1, Some x) \<longrightarrow>
           upload_image e file_path s
             = (logging (Log ERROR (''Image upload failed: '' @ str_exn x))
                  (show_dialog (ShowError ''Error'' (''Invalid image file: '' @ str_exn x)) s1),
                None) \<and>
           predict_button (fst (upload_image e file_path s)) = predict_button s \<and>
           image_label (fst (upload_image e file_path s)) = image_label s))"
proof (intro conjI impI allI)
  assume small: "fst (img_size img) < m \<or> snd (img_size img) < m"
  then show u: "upload_image e file_path s
          = (show_dialog (ShowWarning ''Warning''
               (''Image must be at least '' @ show_int m @ ''x'' @ show_int m @ '' pixels.'')) s,
             None)"
    using assms by (auto simp: upload_image_def upload_image_try_def)
  show "image_path (fst (upload_image e file_path s)) = image_path s"
    "image_label (fst (upload_image e file_path s)) = image_label s"
    "predict_button (fst (upload_image e file_path s)) = predict_button s"
    unfolding u by (simp_all add: show_dialog_def)
next
  assume big: "m \<le> fst (img_size img) \<and> m \<le> snd (img_size img)"
  obtain s1 x where l: "load_and_display_image e file_path (s\<lparr>image_path := Some file_path\<rparr>) = (s1, x)"
    by (cases "load_and_display_image e file_path (s\<lparr>image_path := Some file_path\<rparr>)")
  note f = load_and_display_image_frame [OF l]
  show "image_path (fst (upload_image e file_path s)) = Some file_path"
    using assms big l f
    by (cases x) (auto simp: upload_image_def upload_image_try_def logging_def show_dialog_def)
  {
    assume "snd (load_and_display_image e file_path (s\<lparr>image_path := Some file_path\<rparr>)) = None"
    then have "x = None" using l by simp
    then show "predict_button (fst (upload_image e file_path s)) = Normal"
      "image_label (fst (upload_image e file_path s)) \<noteq> None"
      using assms big l f
      by (auto simp: upload_image_def upload_image_try_def logging_def show_dialog_def)
  }
  {
    fix s2 y
    assume a: "load_and_display_image e file_path (s\<lparr>image_path := Some file_path\<rparr>) = (s2, Some y)"
    note g = load_and_display_image_frame [OF a]
    show u: "upload_image e file_path s
             = (logging (Log ERROR (''Image upload failed: '' @ str_exn y))
                  (show_dialog (ShowError ''Error'' (''Invalid image file: '' @ str_exn y)) s2),
                None)"
      using assms big a by (auto simp: upload_image_def upload_image_try_def)
    show "predict_button (fst (upload_image e file_path s)) = predict_button s"
      "image_label (fst (upload_image e file_path s)) = image_label s"
      unfolding u using g by (simp_all add: logging_def show_dialog_def)
  }
qed

lemma sample_upload_small:
  "image_open sample_env ''/data/strip.png''
     = Inr \<lparr>img_mode = ''RGB'', img_size = (1000, 3),
            img_data = Inr (replicate 3 (replicate 1000 [200, 30, 90]))\<rparr>"
  "image_open sample_env ''/data/cell.png''
     = Inr \<lparr>img_mode = ''RGB'', img_size = (64, 64),
            img_data = Inr (replicate 64 (replicate 64 [200, 30, 90]))\<rparr>"
  "image_open sample_env ''/data/truncated.png''
     = Inr \<lparr>img_mode = ''RGB'', img_size = (100, 100),
            img_data = Inl (Exn OSError ''image file is truncated'')\<rparr>"
  "py_min (target_size (config (sample_app None))) = Inr 48"
  by (simp_all add: start_defs sample_open_def py_min_def)

lemma sample_display:
  "snd (load_and_display_image sample_env ''/data/cell.png''
      ((sample_app None)\<lparr>image_path := Some ''/data/cell.png''\<rparr>)) = None"
  "load_and_display_image sample_env ''/data/truncated.png''
      ((sample_app None)\<lparr>image_path := Some ''/data/truncated.png''\<rparr>)
    = ((sample_app None)\<lparr>image_path := Some ''/data/truncated.png'', placeholder_shown := False\<rparr>,
       Some (Exn OSError ''image file is truncated''))"
  by (simp_all add: start_defs upload_defs)

theorem upload_image_size_gate_witness:
  "image_path (fst (upload_image sample_env ''/data/strip.png'' (sample_app None))) = None \<and>
   predict_button (fst (upload_image sample_env ''/data/strip.png'' (sample_app None))) = Disabled \<and>
   image_path (fst (upload_image sample_env ''/data/cell.png'' (sample_app None)))
     = Some ''/data/cell.png'' \<and>
   predict_button (fst (upload_image sample_env ''/data/cell.png'' (sample_app None))) = Normal \<and>
   image_path (fst (upload_image sample_env ''/data/truncated.png'' (sample_app None)))
     = Some ''/data/truncated.png'' \<and>
   predict_button (fst (upload_image sample_env ''/data/truncated.png'' (sample_app None)))
     = Disabled"
  using
    upload_image_size_gate [OF _ sample_upload_small(1) sample_upload_small(4)]
    upload_image_size_gate [OF _ sample_upload_small(2) sample_upload_small(4)]
    upload_image_size_gate [OF _ sample_upload_small(3) sample_upload_small(4)]
    sample_display sample_upload(3,4)
  by (simp add: logging_def show_dialog_def)

text \<open>
  A file of 100 by 100 pixels whose pixel data cannot be decoded passes the size check,
  so the path is set, but the button stays disabled.
\<close>

theorem upload_not_enabled_counterexample:
  "\<exists>img. image_open sample_env ''/data/truncated.png'' = Inr img \<and>
     img_size img = (100, 100) \<and>
     py_min (target_size (config (sample_app None))) = Inr 48 \<and>
     image_path (fst (upload_image sample_env ''/data/truncated.png'' (sample_app None)))
       = Some ''/data/truncated.png'' \<and>
     predict_button (fst (upload_image sample_env ''/data/truncated.png'' (sample_app None)))
       = Disabled \<and>
     dialogs (fst (upload_image sample_env ''/data/truncated.png'' (sample_app None)))
       = [ShowError ''Error'' ''Invalid image file: image file is truncated'']"
  by (simp add: start_defs upload_defs)

section \<open>Failures\<close>

text \<open>
  C6 (as amended). A missing configuration file is caught in \<^verbatim>\<open>load_config\<close> and
  replaced by the defaults, with no log record and no dialog. A failure of
  \<^verbatim>\<open>load_model\<close> on the configured path other than FileNotFoundError is caught in
  \<^verbatim>\<open>load_model_file\<close>, logged and shown in an error dialog; FileNotFoundError is caught
  and logged as a warning, and when the file dialog is then cancelled \<^verbatim>\<open>create_ui\<close> shows
  the warning that no model was found. In \<^verbatim>\<open>upload_image\<close> and in \<^verbatim>\<open>predict_cancer\<close>
  every exception of the \<^verbatim>\<open>try\<close> block (an image that does not open, an inference that
  raises) is caught, shown in an error dialog and logged. None of these leaves the
  operation as an exception.
\<close>

theorem failures_caught:
  "snd (load_config None) = Inr default_config \<and>
   (load_model e (resource_path e (model_path (config s))) = Inl xm \<and>
      exn_cls xm \<noteq> FileNotFoundError \<longrightarrow>
      load_model_file e choice s
        = (show_dialog (ShowError ''Model Error'' (''Failed to load model: '' @ str_exn xm))
             (logging (Log ERROR (''Failed to load model: '' @ str_exn xm))
                (s\<lparr>model_loaded := False\<rparr>)), None)) \<and>
   (load_model e (resource_path e (model_path (config s))) = Inl xf \<and>
      exn_cls xf = FileNotFoundError \<longrightarrow>
      load_model_file e [] s
        = (logging (Log WARNING ''Default model not found, prompting user selection'') s, None)) \<and>
   (load_model e (resource_path e (model_path (config s))) = Inl xf \<and>
      exn_cls xf = FileNotFoundError \<and> \<not> model_loaded s \<longrightarrow>
      dialogs (create_ui (fst (load_model_file e [] s)))
        = dialogs s @ [ShowWarning ''Model Not Found''
                         ''Please ensure a valid model file is available.'']) \<and>
   snd (upload_image e fp s) = None \<and>
   (fp \<noteq> [] \<and> image_open e fp = Inl xo \<longrightarrow> upload_image_try e fp s = (s, Some xo)) \<and>
   (fp \<noteq> [] \<and> upload_image_try e fp s = (su, Some xu) \<longrightarrow>
      upload_image e fp s
        = (logging (Log ERROR (''Image upload failed: '' @ str_exn xu))
             (show_dialog (ShowError ''Error'' (''Invalid image file: '' @ str_exn xu)) su), None)) \<and>
   snd (predict_cancer e d s) = None \<and>
   (image_open e p = Inr img \<and>
      preprocess_image e (logging (Log INFO (''Predicting for image: '' @ p)) s) img = Inr t \<and>
      model s = Some m \<and> m t = Inl xp \<longrightarrow>
      predict_cancer_try e d p s
        = (logging (Log INFO (''Predicting for image: '' @ p)) s, Some xp)) \<and>
   (model_loaded s \<and> image_path s = Some p \<and> p \<noteq> [] \<and>
      predict_cancer_try e d p (s\<lparr>status_var := ''Processing...''\<rparr>) = (st, Some xt) \<longrightarrow>
      predict_cancer e d s
        = (logging (Log ERROR (''Prediction failed: '' @ str_exn xt))
             (show_dialog (ShowError ''Error'' (''Prediction failed: '' @ str_exn xt)) st), None))"
proof (intro conjI impI)
  show "snd (load_config None) = Inr default_config" by (simp add: load_config_def)
next
  assume "load_model e (resource_path e (model_path (config s))) = Inl xm \<and>
        exn_cls xm \<noteq> FileNotFoundError"
  then show "load_model_file e choice s
        = (show_dialog (ShowError ''Model Error'' (''Failed to load model: '' @ str_exn xm))
             (logging (Log ERROR (''Failed to load model: '' @ str_exn xm))
                (s\<lparr>model_loaded := False\<rparr>)), None)"
    by (simp add: load_model_file_def)
next
  assume "load_model e (resource_path e (model_path (config s))) = Inl xf \<and>
        exn_cls xf = FileNotFoundError"
  then show "load_model_file e [] s
        = (logging (Log WARNING ''Default model not found, prompting user selection'') s, None)"
    by (simp add: load_model_file_def)
next
  assume "load_model e (resource_path e (model_path (config s))) = Inl xf \<and>
        exn_cls xf = FileNotFoundError \<and> \<not> model_loaded s"
  then show "dialogs (create_ui (fst (load_model_file e [] s)))
        = dialogs s @ [ShowWarning ''Model Not Found''
                         ''Please ensure a valid model file is available.'']"
    by (simp add: load_model_file_def create_ui_def logging_def show_dialog_def Let_def)
next
  show "snd (upload_image e fp s) = None"
    using upload_image_frame [of e fp s] by (cases "upload_image e fp s") simp
next
  assume "fp \<noteq> [] \<and> image_open e fp = Inl xo"
  then show "upload_image_try e fp s = (s, Some xo)" by (simp add: upload_image_try_def)
next
  assume "fp \<noteq> [] \<and> upload_image_try e fp s = (su, Some xu)"
  then show "upload_image e fp s
        = (logging (Log ERROR (''Image upload failed: '' @ str_exn xu))
             (show_dialog (ShowError ''Error'' (''Invalid image file: '' @ str_exn xu)) su), None)"
    by (simp add: upload_image_def)
next
  show "snd (predict_cancer e d s) = None"
    using predict_cancer_frame [of e d s] by (cases "predict_cancer e d s") simp
next
  assume "image_open e p = Inr img \<and>
        preprocess_image e (logging (Log INFO (''Predicting for image: '' @ p)) s) img = Inr t \<and>
        model s = Some m \<and> m t = Inl xp"
  then show "predict_cancer_try e d p s
        = (logging (Log INFO (''Predicting for image: '' @ p)) s, Some xp)"
    by (simp add: predict_cancer_try_def Let_def logging_def)
next
  assume "model_loaded s \<and> image_path s = Some p \<and> p \<noteq> [] \<and>
        predict_cancer_try e d p (s\<lparr>status_var := ''Processing...''\<rparr>) = (st, Some xt)"
  then show "predict_cancer e d s
        = (logging (Log ERROR (''Prediction failed: '' @ str_exn xt))
             (show_dialog (ShowError ''Error'' (''Prediction failed: '' @ str_exn xt)) st), None)"
    by (simp add: predict_cancer_def)
qed

lemma sample_failures:
  "load_model corrupt_model_env
      (resource_path corrupt_model_env (model_path (config (new_app default_config None))))
     = Inl (Exn OSError ''file signature not found'')"
  "load_model missing_model_env
      (resource_path missing_model_env (model_path (config (new_app default_config None))))
     = Inl (Exn FileNotFoundError ''No such file or directory'')"
  "image_open sample_env ''/data/missing.png''
     = Inl (Exn FileNotFoundError ''No such file or directory'')"
  by (simp_all add: corrupt_model_env_def missing_model_env_def sample_env_def sample_open_def
      resource_path_def path_join_def new_app_def default_config_def)

lemma sample_inference_failure:
  "predict_cancer_try sample_env d ''/data/cell.png''
      ((sample_session (1 / 2))\<lparr>model := Some failing_model, dialogs := [], log := [],
                                status_var := ''Processing...''\<rparr>)
     = ((sample_session (1 / 2))\<lparr>model := Some failing_model, dialogs := [],
           log := [Log INFO ''Predicting for image: /data/cell.png''],
           status_var := ''Processing...''\<rparr>,
        Some (Exn ValueError ''incompatible input shape''))"
  "model_loaded (sample_session (1 / 2))"
  "image_path (sample_session (1 / 2)) = Some ''/data/cell.png''"
  unfolding sample_session_def
  by (simp_all add: start_defs upload_defs predict_defs format_percent_sixty failing_model_def)

theorem failures_caught_witness:
  "load_model_file corrupt_model_env [] (new_app default_config None)
     = (show_dialog (ShowError ''Model Error'' ''Failed to load model: file signature not found'')
          (logging (Log ERROR ''Failed to load model: file signature not found'')
             (new_app default_config None)), None) \<and>
   load_model_file missing_model_env [] (new_app default_config None)
     = (logging (Log WARNING ''Default model not found, prompting user selection'')
          (new_app default_config None), None) \<and>
   dialogs (create_ui (fst (load_model_file missing_model_env [] (new_app default_config None))))
     = [ShowWarning ''Model Not Found'' ''Please ensure a valid model file is available.''] \<and>
   upload_image sample_env ''/data/missing.png'' (sample_app None)
     = (logging (Log ERROR ''Image upload failed: No such file or directory'')
          (show_dialog (ShowError ''Error'' ''Invalid image file: No such file or directory'')
             (sample_app None)), None) \<and>
   dialogs (fst (predict_cancer sample_env ''2025-01-03 08:00''
      ((sample_session (1 / 2))\<lparr>model := Some failing_model, dialogs := [], log := []\<rparr>)))
     = [ShowError ''Error'' ''Prediction failed: incompatible input shape''] \<and>
   snd (predict_cancer sample_env ''2025-01-03 08:00''
      ((sample_session (1 / 2))\<lparr>model := Some failing_model, dialogs := [], log := []\<rparr>)) = None"
proof -
  let ?s0 = "new_app default_config None"
  let ?sp = "(sample_session (1 / 2))\<lparr>model := Some failing_model, dialogs := [], log := []\<rparr>"
  note c = failures_caught [THEN conjunct2]
  note c2 = c [THEN conjunct1, THEN mp]
  note c3 = c [THEN conjunct2, THEN conjunct1, THEN mp]
  note c4 = c [THEN conjunct2, THEN conjunct2, THEN conjunct1, THEN mp]
  note c6 = c [THEN conjunct2, THEN conjunct2, THEN conjunct2, THEN conjunct2, THEN conjunct1,
      THEN mp]
  note c7 = c [THEN conjunct2, THEN conjunct2, THEN conjunct2, THEN conjunct2, THEN conjunct2,
      THEN conjunct1, THEN mp]
  note c8 = c [THEN conjunct2, THEN conjunct2, THEN conjunct2, THEN conjunct2, THEN conjunct2,
      THEN conjunct2, THEN conjunct1]
  note c10 = c [THEN conjunct2, THEN conjunct2, THEN conjunct2, THEN conjunct2, THEN conjunct2,
      THEN conjunct2, THEN conjunct2, THEN conjunct2, THEN mp]
  have m: "load_model_file corrupt_model_env [] ?s0
     = (show_dialog (ShowError ''Model Error'' ''Failed to load model: file signature not found'')
          (logging (Log ERROR ''Failed to load model: file signature not found'') ?s0), None)"
    using c2 [of corrupt_model_env ?s0 "Exn OSError ''file signature not found''" "[]"]
      sample_failures(1)
    by (simp add: new_app_def)
  have f: "load_model_file missing_model_env [] ?s0
     = (logging (Log WARNING ''Default model not found, prompting user selection'') ?s0, None)"
    using c3 [of missing_model_env ?s0 "Exn FileNotFoundError ''No such file or directory''"]
      sample_failures(2)
    by simp
  have g: "dialogs (create_ui (fst (load_model_file missing_model_env [] ?s0)))
     = [ShowWarning ''Model Not Found'' ''Please ensure a valid model file is available.'']"
    using c4 [of missing_model_env ?s0 "Exn FileNotFoundError ''No such file or directory''"]
      sample_failures(2)
    by (simp add: new_app_def)
  have u0: "upload_image_try sample_env ''/data/missing.png'' (sample_app None)
     = (sample_app None, Some (Exn FileNotFoundError ''No such file or directory''))"
    using c6 [of "''/data/missing.png''" sample_env
        "Exn FileNotFoundError ''No such file or directory''" "sample_app None"]
      sample_failures(3)
    by simp
  have u: "upload_image sample_env ''/data/missing.png'' (sample_app None)
     = (logging (Log ERROR ''Image upload failed: No such file or directory'')
          (show_dialog (ShowError ''Error'' ''Invalid image file: No such file or directory'')
             (sample_app None)), None)"
    using c7 [of "''/data/missing.png''" sample_env "sample_app None" "sample_app None"
        "Exn FileNotFoundError ''No such file or directory''"] u0
    by simp
  have p: "predict_cancer sample_env ''2025-01-03 08:00'' ?sp
     = (logging (Log ERROR ''Prediction failed: incompatible input shape'')
          (show_dialog (ShowError ''Error'' ''Prediction failed: incompatible input shape'')
             ((sample_session (1 / 2))\<lparr>model := Some failing_model, dialogs := [],
                log := [Log INFO ''Predicting for image: /data/cell.png''],
                status_var := ''Processing...''\<rparr>)), None)"
    using c10 [of ?sp "''/data/cell.png''" sample_env "''2025-01-03 08:00''"
        "(sample_session (1 / 2))\<lparr>model := Some failing_model, dialogs := [],
           log := [Log INFO ''Predicting for image: /data/cell.png''],
           status_var := ''Processing...''\<rparr>"
        "Exn ValueError ''incompatible input shape''"]
      sample_inference_failure(1) [of "''2025-01-03 08:00''"] sample_inference_failure(2,3)
    by simp
  show ?thesis
    using m f g u p c8 [of sample_env "''2025-01-03 08:00''" ?sp]
    by (simp add: logging_def show_dialog_def)
qed

text \<open>
  On a first run with no configuration file and a model that loads, nothing about the
  missing file is logged or shown.
\<close>

theorem missing_config_silent_counterexample:
  "load_config None = (Some (JsonConfig default_config), Inr default_config) \<and>
   init sample_env [] None = Inr (sample_app None) \<and>
   config_file (sample_app None) = Some (JsonConfig default_config) \<and>
   dialogs (sample_app None) = [] \<and>
   log (sample_app None) = [Log INFO ''Model loaded successfully from default path'']"
  by (simp add: start_defs)
section \<open>Preprocessing\<close>

lemma rgb_array:
  assumes l: "loaded_image img" and m: "img_mode img = ''RGB''" and sz: "img_size img = (w, h)"
  shows "\<exists>d. img_data img = Inr d \<and>
           list_all (list_all rgb_pixel) d \<and>
           map (map (map (\<lambda>v. f32_round (v / 255)))) (map (map (map (\<lambda>v. f32_round (of_int v)))) d)
             = map (map (map (\<lambda>v. f32_round (of_int v / 255)))) d \<and>
           has_shape [map (map (map (\<lambda>v. f32_round (of_int v / 255)))) d] 1 (nat h) (nat w) 3 \<and>
           all_elements (\<lambda>v. 0 \<le> v \<and> v \<le> 1) [map (map (map (\<lambda>v. f32_round (of_int v / 255)))) d]"
proof -
  obtain d where d: "img_data img = Inr d"
    using l by (cases "img_data img") (simp_all add: loaded_image_def)
  have rows: "length d = nat h"
    and row: "\<And>r. r \<in> set d \<Longrightarrow> length r = nat w \<and> (\<forall>px \<in> set r. rgb_pixel px)"
    using l d m sz by (auto simp: loaded_image_def list_all_iff)
  have px: "\<And>r p v. r \<in> set d \<Longrightarrow> p \<in> set r \<Longrightarrow> v \<in> set p \<Longrightarrow> 0 \<le> v \<and> v \<le> 255"
    and pl: "\<And>r p. r \<in> set d \<Longrightarrow> p \<in> set r \<Longrightarrow> length p = 3"
    using row by (auto simp: rgb_pixel_def list_all_iff)
  have unit: "\<And>r p v. r \<in> set d \<Longrightarrow> p \<in> set r \<Longrightarrow> v \<in> set p \<Longrightarrow>
      0 \<le> f32_round (of_int v / 255) \<and> f32_round (of_int v / 255) \<le> 1"
    using px f32_round_band(2) by blast
  have exact: "\<And>r p v. r \<in> set d \<Longrightarrow> p \<in> set r \<Longrightarrow> v \<in> set p \<Longrightarrow>
      f32_round (f32_round (of_int v) / 255) = f32_round (of_int v / 255)"
    using px f32_round_band(1) by simp
  have a: "list_all (list_all rgb_pixel) d" using row by (simp add: list_all_iff)
  have b: "map (map (map (\<lambda>v. f32_round (v / 255)))) (map (map (map (\<lambda>v. f32_round (of_int v)))) d)
             = map (map (map (\<lambda>v. f32_round (of_int v / 255)))) d"
    using exact by (simp add: o_def cong: map_cong)
  have c: "has_shape [map (map (map (\<lambda>v. f32_round (of_int v / 255)))) d] 1 (nat h) (nat w) 3"
    using rows row pl by (auto simp: has_shape_def list_all_iff)
  have e: "all_elements (\<lambda>v. 0 \<le> v \<and> v \<le> 1) [map (map (map (\<lambda>v. f32_round (of_int v / 255)))) d]"
    using unit by (auto simp: all_elements_def list_all_iff)
  show ?thesis using d a b c e by blast
qed

text \<open>
  C9. Let the imaging library keep its contract: \<^verbatim>\<open>convert('RGB')\<close> of a decodable image
  is a decodable RGB image of the same size, and \<^verbatim>\<open>resize\<close> to the target size is a
  decodable image of that size in the same mode. Then for every decodable image and a
  target size of positive width \<open>w\<close> and height \<open>h\<close>, \<^verbatim>\<open>preprocess_image\<close> with the model
  loaded returns an array of shape (1, h, w, 3) with all elements in [0, 1]. The array
  is made from the image itself when its mode is RGB and from \<^verbatim>\<open>convert('RGB')\<close> of it
  otherwise: that RGB image is resized to the target size, and the one block of the
  array holds, row by row and pixel by pixel, the three 8-bit band values of the resized
  image, each divided by 255 in float32. With the model not loaded
  \<^verbatim>\<open>preprocess_image\<close> raises ValueError.
\<close>

theorem preprocess_image_shape_and_range:
  assumes conv: "\<forall>i. loaded_image i \<longrightarrow>
      (\<exists>i'. image_convert e i ''RGB'' = Inr i' \<and> img_mode i' = ''RGB'' \<and>
           img_size i' = img_size i \<and> loaded_image i')"
    and rsz: "\<forall>i r. loaded_image i \<longrightarrow>
      (\<exists>i'. image_resize e i [w, h] r = Inr i' \<and> img_mode i' = img_mode i \<and>
           img_size i' = (w, h) \<and> loaded_image i')"
    and ts: "target_size (config s) = [w, h]" and pos: "0 < w" "0 < h"
    and img: "loaded_image img"
  shows "(model_loaded s \<longrightarrow>
           (\<exists>t rgb resized d.
              preprocess_image e s img = Inr t \<and> has_shape t 1 (nat h) (nat w) 3 \<and>
              all_elements (\<lambda>v. 0 \<le> v \<and> v \<le> 1) t \<and>
              (img_mode img = ''RGB'' \<longrightarrow> rgb = img) \<and>
              (img_mode img \<noteq> ''RGB'' \<longrightarrow> image_convert e img ''RGB'' = Inr rgb) \<and>
              img_mode rgb = ''RGB'' \<and>
              image_resize e rgb [w, h] None = Inr resized \<and>
              img_mode resized = ''RGB'' \<and> img_size resized = (w, h) \<and>
              img_data resized = Inr d \<and> list_all (list_all rgb_pixel) d \<and>
              t = [map (map (map (\<lambda>v. f32_round (of_int v / 255)))) d])) \<and>
         (\<not> model_loaded s \<longrightarrow>
           preprocess_image e s img = Inl (Exn ValueError ''Model not loaded''))"
proof (intro conjI impI)
  assume "\<not> model_loaded s"
  then show "preprocess_image e s img = Inl (Exn ValueError ''Model not loaded'')"
    by (simp add: preprocess_image_def)
next
  assume ml: "model_loaded s"
  obtain img1 where c: "(if img_mode img \<noteq> ''RGB'' then image_convert e img ''RGB'' else Inr img) = Inr img1"
    and m1: "img_mode img1 = ''RGB''" and l1: "loaded_image img1"
    using conv img by (cases "img_mode img = ''RGB''") auto
  obtain img2 where r: "image_resize e img1 [w, h] None = Inr img2"
    and m2: "img_mode img2 = ''RGB''" and s2: "img_size img2 = (w, h)" and l2: "loaded_image img2"
    using rsz l1 m1 by metis
  obtain d where d: "img_data img2 = Inr d" and px: "list_all (list_all rgb_pixel) d"
    and eq: "map (map (map (\<lambda>v. f32_round (v / 255)))) (map (map (map (\<lambda>v. f32_round (of_int v)))) d)
             = map (map (map (\<lambda>v. f32_round (of_int v / 255)))) d"
    and sh: "has_shape [map (map (map (\<lambda>v. f32_round (of_int v / 255)))) d] 1 (nat h) (nat w) 3"
    and el: "all_elements (\<lambda>v. 0 \<le> v \<and> v \<le> 1) [map (map (map (\<lambda>v. f32_round (of_int v / 255)))) d]"
    using rgb_array [OF l2 m2 s2] by blast
  have p: "preprocess_image e s img = Inr [map (map (map (\<lambda>v. f32_round (of_int v / 255)))) d]"
    using ml ts c r d eq unfolding preprocess_image_def img_to_array_def Let_def by simp
  have c1: "img_mode img = ''RGB'' \<longrightarrow> img1 = img"
    and c2: "img_mode img \<noteq> ''RGB'' \<longrightarrow> image_convert e img ''RGB'' = Inr img1"
    using c by (simp_all split: if_splits)
  show "\<exists>t rgb resized d.
              preprocess_image e s img = Inr t \<and> has_shape t 1 (nat h) (nat w) 3 \<and>
              all_elements (\<lambda>v. 0 \<le> v \<and> v \<le> 1) t \<and>
              (img_mode img = ''RGB'' \<longrightarrow> rgb = img) \<and>
              (img_mode img \<noteq> ''RGB'' \<longrightarrow> image_convert e img ''RGB'' = Inr rgb) \<and>
              img_mode rgb = ''RGB'' \<and>
              image_resize e rgb [w, h] None = Inr resized \<and>
              img_mode resized = ''RGB'' \<and> img_size resized = (w, h) \<and>
              img_data resized = Inr d \<and> list_all (list_all rgb_pixel) d \<and>
              t = [map (map (map (\<lambda>v. f32_round (of_int v / 255)))) d]"
    using p sh el c1 c2 m1 r m2 s2 d px by blast
qed

lemma rgb_of_pixel: "rgb_pixel (rgb_of px)"
  by (simp add: rgb_pixel_def rgb_of_def)

lemma sample_pixels_loaded:
  assumes "0 \<le> w" "0 \<le> h" "rgb \<or> m \<noteq> ''RGB''"
  shows "loaded_image \<lparr>img_mode = m, img_size = (w, h), img_data = Inr (sample_pixels rgb d old (w, h))\<rparr>"
  using assms by (auto simp: loaded_image_def sample_pixels_def list_all_iff rgb_of_pixel)

lemma sample_convert_contract:
  "\<forall>i. loaded_image i \<longrightarrow>
      (\<exists>i'. image_convert sample_env i ''RGB'' = Inr i' \<and> img_mode i' = ''RGB'' \<and>
           img_size i' = img_size i \<and> loaded_image i')"
proof (intro allI impI)
  fix i
  assume l: "loaded_image i"
  then obtain d where d: "img_data i = Inr d"
    by (cases "img_data i") (simp_all add: loaded_image_def)
  have "loaded_image \<lparr>img_mode = ''RGB'', img_size = (fst (img_size i), snd (img_size i)),
          img_data = Inr (sample_pixels True d (img_size i) (fst (img_size i), snd (img_size i)))\<rparr>"
  proof (cases "0 \<le> fst (img_size i) \<and> 0 \<le> snd (img_size i)")
    case True
    then show ?thesis by (intro sample_pixels_loaded) simp_all
  next
    case False
    then show ?thesis
      by (auto simp: loaded_image_def sample_pixels_def list_all_iff rgb_of_pixel)
  qed
  then show "\<exists>i'. image_convert sample_env i ''RGB'' = Inr i' \<and> img_mode i' = ''RGB'' \<and>
           img_size i' = img_size i \<and> loaded_image i'"
    by (simp add: sample_env_def sample_convert_def d)
qed

lemma sample_resize_contract:
  assumes "0 < w" "0 < h"
  shows "\<forall>i r. loaded_image i \<longrightarrow>
      (\<exists>i'. image_resize sample_env i [w, h] r = Inr i' \<and> img_mode i' = img_mode i \<and>
           img_size i' = (w, h) \<and> loaded_image i')"
proof (intro allI impI)
  fix i r
  assume l: "loaded_image i"
  then obtain d where d: "img_data i = Inr d"
    by (cases "img_data i") (simp_all add: loaded_image_def)
  have "loaded_image \<lparr>img_mode = img_mode i, img_size = (w, h),
          img_data = Inr (sample_pixels (img_mode i = ''RGB'') d (img_size i) (w, h))\<rparr>"
    using assms by (intro sample_pixels_loaded) auto
  then show "\<exists>i'. image_resize sample_env i [w, h] r = Inr i' \<and> img_mode i' = img_mode i \<and>
           img_size i' = (w, h) \<and> loaded_image i'"
    using assms by (simp add: sample_env_def sample_resize_def d)
qed

lemma sample_images_loaded:
  "loaded_image \<lparr>img_mode = ''RGB'', img_size = (64, 64),
     img_data = Inr (replicate 64 (replicate 64 [200, 30, 90]))\<rparr>"
  "loaded_image \<lparr>img_mode = ''L'', img_size = (50, 60),
     img_data = Inr (replicate 60 (replicate 50 [128]))\<rparr>"
  by (simp_all add: loaded_image_def list_all_iff rgb_pixel_def)
theorem preprocess_image_shape_and_range_witness:
  "(\<exists>t resized d. preprocess_image sample_env (sample_app None)
          \<lparr>img_mode = ''RGB'', img_size = (64, 64),
             img_data = Inr (replicate 64 (replicate 64 [200, 30, 90]))\<rparr> = Inr t \<and>
        has_shape t 1 48 48 3 \<and> all_elements (\<lambda>v. 0 \<le> v \<and> v \<le> 1) t \<and>
        image_resize sample_env
          \<lparr>img_mode = ''RGB'', img_size = (64, 64),
             img_data = Inr (replicate 64 (replicate 64 [200, 30, 90]))\<rparr> [48, 48] None
          = Inr resized \<and>
        img_data resized = Inr d \<and>
        t = [map (map (map (\<lambda>v. f32_round (of_int v / 255)))) d]) \<and>
   (\<exists>t rgb resized d. preprocess_image sample_env (sample_app None)
          \<lparr>img_mode = ''L'', img_size = (50, 60),
             img_data = Inr (replicate 60 (replicate 50 [128]))\<rparr> = Inr t \<and>
        has_shape t 1 48 48 3 \<and> all_elements (\<lambda>v. 0 \<le> v \<and> v \<le> 1) t \<and>
        image_convert sample_env
          \<lparr>img_mode = ''L'', img_size = (50, 60),
             img_data = Inr (replicate 60 (replicate 50 [128]))\<rparr> ''RGB'' = Inr rgb \<and>
        image_resize sample_env rgb [48, 48] None = Inr resized \<and>
        img_data resized = Inr d \<and>
        t = [map (map (map (\<lambda>v. f32_round (of_int v / 255)))) d]) \<and>
   preprocess_image sample_env ((sample_app None)\<lparr>model_loaded := False\<rparr>)
          \<lparr>img_mode = ''RGB'', img_size = (64, 64),
             img_data = Inr (replicate 64 (replicate 64 [200, 30, 90]))\<rparr>
     = Inl (Exn ValueError ''Model not loaded'')"
proof -
  have ts: "target_size (config (sample_app None)) = [48, 48]"
    "target_size (config ((sample_app None)\<lparr>model_loaded := False\<rparr>)) = [48, 48]"
    "model_loaded (sample_app None)"
    by (simp_all add: start_defs)
  have pos: "(0 :: int) < 48" by simp
  note t = preprocess_image_shape_and_range [OF sample_convert_contract
      sample_resize_contract [OF pos pos] _ pos pos]
  have a: "\<exists>t resized d. preprocess_image sample_env (sample_app None)
          \<lparr>img_mode = ''RGB'', img_size = (64, 64),
             img_data = Inr (replicate 64 (replicate 64 [200, 30, 90]))\<rparr> = Inr t \<and>
        has_shape t 1 48 48 3 \<and> all_elements (\<lambda>v. 0 \<le> v \<and> v \<le> 1) t \<and>
        image_resize sample_env
          \<lparr>img_mode = ''RGB'', img_size = (64, 64),
             img_data = Inr (replicate 64 (replicate 64 [200, 30, 90]))\<rparr> [48, 48] None
          = Inr resized \<and>
        img_data resized = Inr d \<and>
        t = [map (map (map (\<lambda>v. f32_round (of_int v / 255)))) d]"
    using t [OF ts(1) sample_images_loaded(1)] ts(3) by simp blast
  have b: "\<exists>t rgb resized d. preprocess_image sample_env (sample_app None)
          \<lparr>img_mode = ''L'', img_size = (50, 60),
             img_data = Inr (replicate 60 (replicate 50 [128]))\<rparr> = Inr t \<and>
        has_shape t 1 48 48 3 \<and> all_elements (\<lambda>v. 0 \<le> v \<and> v \<le> 1) t \<and>
        image_convert sample_env
          \<lparr>img_mode = ''L'', img_size = (50, 60),
             img_data = Inr (replicate 60 (replicate 50 [128]))\<rparr> ''RGB'' = Inr rgb \<and>
        image_resize sample_env rgb [48, 48] None = Inr resized \<and>
        img_data resized = Inr d \<and>
        t = [map (map (map (\<lambda>v. f32_round (of_int v / 255)))) d]"
    using t [OF ts(1) sample_images_loaded(2)] ts(3) by simp blast
  have c: "preprocess_image sample_env ((sample_app None)\<lparr>model_loaded := False\<rparr>)
          \<lparr>img_mode = ''RGB'', img_size = (64, 64),
             img_data = Inr (replicate 64 (replicate 64 [200, 30, 90]))\<rparr>
     = Inl (Exn ValueError ''Model not loaded'')"
    using t [OF ts(2) sample_images_loaded(1)] by simp
  show ?thesis using a b c by (intro conjI)
qed

end
